theory Spec2Isabelle
  imports Complex_Main "HOL-Library.Word"
begin

unbundle bit_operations_syntax

section \<open>Errors\<close>

text \<open>
  The Python exceptions that the modelled code can raise.  A function that can raise returns
  \<open>error + 'a\<close>, with \<open>Inl\<close> carrying the exception.
\<close>

datatype error =
    TypeError
  | AttributeError
  | KeyError
  | ValueError
  | AssertionError
  | ZeroDivisionError
  | NotImplementedError

fun bind_res :: "error + 'a \<Rightarrow> ('a \<Rightarrow> error + 'b) \<Rightarrow> error + 'b" where
  "bind_res (Inl e) f = Inl e"
| "bind_res (Inr x) f = f x"

section \<open>entities.py: the robot\<close>

text \<open>
  Python floats are modelled as reals: rounding, infinities and NaN are outside the model.
  \<open>math.pi\<close> is \<open>pi\<close> and the literal \<open>1e-4\<close> is \<open>1 / 10000\<close>.
\<close>

type_synonym Vec2d = "real \<times> real"

text \<open>The fields of a \<open>pm.Body\<close> and of a \<open>pm.SimpleMotor\<close> that the source reads or writes.\<close>

record Body =
  angle :: real
  position :: Vec2d
  velocity :: Vec2d

record SimpleMotor =
  rate :: real
  max_bias :: real
  max_force :: real

text \<open>\<open>gym_render.Transform\<close>: the pose that a geom is drawn at.\<close>

record Transform =
  translation :: Vec2d
  rotation :: real
  scale :: Vec2d

definition Transform_init :: Transform where
  "Transform_init = \<lparr> translation = (0, 0), rotation = 0, scale = (1, 1) \<rparr>"

text \<open>\<open>class RobotAction(enum.IntFlag)\<close>: a flag set is an integer bitmask.\<close>

definition NONE :: int where "NONE = 0"
definition UP :: int where "UP = 1"
definition DOWN :: int where "DOWN = 2"
definition LEFT :: int where "LEFT = 4"
definition RIGHT :: int where "RIGHT = 8"
definition OPEN :: int where "OPEN = 16"
definition CLOSE :: int where "CLOSE = 32"

text \<open>
  The attributes that \<open>Robot.setup\<close> creates; they do not exist before it has run.
\<close>

record RobotRig =
  robot_body :: Body
  control_body :: Body
  finger_bodies :: "Body list"
  finger_motors :: "SimpleMotor list"
  robot_xform :: Transform
  finger_xforms :: "Transform list"

text \<open>
  \<open>class Robot\<close>.  \<open>target_finger_angle\<close> is created by \<open>setup\<close> (or by the first
  \<open>set_action\<close> with a gripper flag), so it is optional: \<open>None\<close> is the missing attribute.
\<close>

record Robot =
  radius :: real
  init_pos :: Vec2d
  init_angle :: real
  mass :: real
  rel_turn_angle :: real
  target_speed :: real
  finger_rot_limit_outer :: real
  finger_rot_limit_inner :: real
  target_finger_angle :: "real option"
  rig :: "RobotRig option"

text \<open>\<open>Robot.__init__(radius, init_pos, init_angle, mass=1.0)\<close>\<close>

definition Robot_init :: "real \<Rightarrow> Vec2d \<Rightarrow> real \<Rightarrow> real \<Rightarrow> Robot" where
  "Robot_init rad pos ang m =
     \<lparr> radius = rad, init_pos = pos, init_angle = ang, mass = m,
       rel_turn_angle = 0, target_speed = 0,
       finger_rot_limit_outer = pi / 8, finger_rot_limit_inner = pi / 8,
       target_finger_angle = None, rig = None \<rparr>"

text \<open>
  \<open>Robot.set_action(move_action)\<close>.  A flag test \<open>move_action & RobotAction.X\<close> is true
  when the result is not zero.  The statements run in the order of the source.
\<close>

definition set_action :: "Robot \<Rightarrow> int \<Rightarrow> Robot" where
  "set_action r0 move_action =
     (let r = r0\<lparr>rel_turn_angle := 0\<rparr>;
          r = r\<lparr>target_speed := 0\<rparr>;
          r = (if move_action AND UP \<noteq> 0
               then r\<lparr>target_speed := target_speed r + 4 * radius r\<rparr> else r);
          r = (if move_action AND DOWN \<noteq> 0
               then r\<lparr>target_speed := target_speed r - 3 * radius r\<rparr> else r);
          r = (if move_action AND UP \<noteq> 0 \<and> move_action AND DOWN \<noteq> 0
               then r\<lparr>target_speed := 0\<rparr> else r);
          r = (if move_action AND LEFT \<noteq> 0
               then r\<lparr>rel_turn_angle := rel_turn_angle r + 3 / 2\<rparr> else r);
          r = (if move_action AND RIGHT \<noteq> 0
               then r\<lparr>rel_turn_angle := rel_turn_angle r - 3 / 2\<rparr> else r)
      in if move_action AND OPEN \<noteq> 0
         then r\<lparr>target_finger_angle := Some (finger_rot_limit_outer r)\<rparr>
         else if move_action AND CLOSE \<noteq> 0
         then r\<lparr>target_finger_angle := Some (- finger_rot_limit_inner r)\<rparr>
         else r)"

text \<open>
  The body of the finger loop of \<open>Robot.update\<close>: the rate written to one finger motor.
\<close>

definition finger_target_rate :: "real \<Rightarrow> real \<Rightarrow> real \<Rightarrow> real \<Rightarrow> real" where
  "finger_target_rate body_angle finger_angle finger_side tfa =
     (let rel_angle = finger_angle - body_angle;
          angle_error = rel_angle + finger_side * tfa;
          target_rate = max (- 1) (min 1 (angle_error * 10))
      in if \<bar>target_rate\<bar> < 1 / 10000 then 0 else target_rate)"

text \<open>
  \<open>for finger_body, finger_motor, finger_side in zip(self.finger_bodies, self.finger_motors,
  [-1, 1])\<close>: the loop stops with the shortest of the three lists, and the motors it does not
  reach keep their rate.
\<close>

fun update_fingers :: "real \<Rightarrow> real \<Rightarrow> Body list \<Rightarrow> SimpleMotor list \<Rightarrow> real list
                         \<Rightarrow> SimpleMotor list" where
  "update_fingers ba tfa (fb # fbs) (fm # fms) (side # sides) =
     fm\<lparr>rate := finger_target_rate ba (angle fb) side tfa\<rparr>
       # update_fingers ba tfa fbs fms sides"
| "update_fingers ba tfa fbs fms sides = fms"

text \<open>
  \<open>Vec2d.cpvrotate\<close> and \<open>Body.rotation_vector\<close> of pymunk, as its documentation gives them:
  complex multiplication, and the unit vector of the body's angle.
\<close>

definition cpvrotate :: "Vec2d \<Rightarrow> Vec2d \<Rightarrow> Vec2d" where
  "cpvrotate v w = (fst v * fst w - snd v * snd w, fst v * snd w + snd v * fst w)"

definition rotation_vector :: "Body \<Rightarrow> Vec2d" where
  "rotation_vector b = (cos (angle b), sin (angle b))"

text \<open>
  \<open>Robot.update(dt)\<close>.  Reading an attribute that \<open>setup\<close> has not created raises
  \<open>AttributeError\<close>.
\<close>

definition Robot_update :: "Robot \<Rightarrow> real \<Rightarrow> error + Robot" where
  "Robot_update r dt =
     (case rig r of
        None \<Rightarrow> Inl AttributeError
      | Some g \<Rightarrow>
          let cb = (control_body g)\<lparr>angle := angle (robot_body g) + rel_turn_angle r\<rparr>;
              x_vel_vector = (0, target_speed r);
              vel_vector = cpvrotate (rotation_vector (robot_body g)) x_vel_vector;
              cb = cb\<lparr>velocity := vel_vector\<rparr>
          in if finger_bodies g = [] \<or> finger_motors g = []
             then Inr (r\<lparr>rig := Some (g\<lparr>control_body := cb\<rparr>)\<rparr>)
             else (case target_finger_angle r of
                     None \<Rightarrow> Inl AttributeError
                   | Some tfa \<Rightarrow>
                       Inr (r\<lparr>rig := Some (g\<lparr>control_body := cb,
                               finger_motors :=
                                 update_fingers (angle (robot_body g)) tfa
                                   (finger_bodies g) (finger_motors g) [- 1, 1]\<rparr>)\<rparr>)))"

section \<open>The action table\<close>

text \<open>
  An action of the environment is an index into a fixed table of flag triples
  (up/down, left/right, open/close).
\<close>

type_synonym flag_triple = "int \<times> int \<times> int"

text \<open>
  Modelled from the spec: \<open>base_env.py\<close> reads the tables \<open>en.ACTION_NUMS_FLAGS_NAMES\<close>,
  \<open>en.ACTION_ID_TO_FLAGS\<close> and \<open>en.FLAGS_TO_ACTION_ID\<close>, which \<open>entities.py\<close> under src/
  does not define.  The spec (section 6) gives the table as every valid combination of a
  vertical, a horizontal and a gripper flag, numbered from 0; \<open>__main__.py\<close> builds its triples
  from \<open>[NONE, NONE, OPEN]\<close> by replacing the first entry with UP or DOWN, the second with
  LEFT or RIGHT and the third with CLOSE, and takes action 0 for the null action.
\<close>

definition ACTION_FLAGS :: "flag_triple list" where
  "ACTION_FLAGS =
     concat (map (\<lambda>ud. concat (map (\<lambda>lr. map (\<lambda>grip. (ud, lr, grip)) [OPEN, CLOSE])
                                     [NONE, LEFT, RIGHT]))
                 [NONE, UP, DOWN])"

text \<open>
  Modelled from the spec: the two dictionaries built from a table, index to triple and triple
  to index.  In the second a triple that occurs twice keeps its last index, as a Python
  dictionary built in table order would.
\<close>

definition ACTION_ID_TO_FLAGS :: "flag_triple list \<Rightarrow> int \<rightharpoonup> flag_triple" where
  "ACTION_ID_TO_FLAGS tbl =
     (\<lambda>i. if 0 \<le> i \<and> i < int (length tbl) then Some (tbl ! nat i) else None)"

definition FLAGS_TO_ACTION_ID :: "flag_triple list \<Rightarrow> flag_triple \<rightharpoonup> int" where
  "FLAGS_TO_ACTION_ID tbl = map_of (rev (zip tbl (map int [0..<length tbl])))"

text \<open>
  \<open>BaseEnv.action_to_flags(int_action)\<close> and \<open>BaseEnv.flags_to_action(flags)\<close>: dictionary
  lookups, which raise \<open>KeyError\<close> on a missing key.  \<open>tuple(flags)\<close> of a list that is not a
  triple is not a key of the table.
\<close>

definition action_to_flags :: "flag_triple list \<Rightarrow> int \<Rightarrow> error + flag_triple" where
  "action_to_flags tbl int_action =
     (case ACTION_ID_TO_FLAGS tbl int_action of None \<Rightarrow> Inl KeyError | Some t \<Rightarrow> Inr t)"

fun flags_to_action :: "flag_triple list \<Rightarrow> int list \<Rightarrow> error + int" where
  "flags_to_action tbl [ud, lr, grip] =
     (case FLAGS_TO_ACTION_ID tbl (ud, lr, grip) of None \<Rightarrow> Inl KeyError | Some a \<Rightarrow> Inr a)"
| "flags_to_action tbl flags = Inl KeyError"

section \<open>The physics space and the viewer\<close>

text \<open>
  \<open>pm.Space\<close>: what the source sets on it, and what has been added to it.  The bodies
  themselves are kept by the entity that created them; the space counts them.  A constraint
  records its kind and the \<open>max_force\<close> the source gives it (\<open>None\<close>: pymunk's default,
  unlimited).
\<close>

datatype ConstraintKind = PivotJoint | GearJoint | PinJoint | RotaryLimitJoint | MotorJoint

record Constraint =
  kind :: ConstraintKind
  joint_max_force :: "real option"

record Space =
  collision_slop :: real
  iterations :: int
  bodies :: nat
  shapes :: nat
  constraints :: "Constraint list"

definition Space_init :: Space where
  "Space_init = \<lparr> collision_slop = 1 / 10, iterations = 10, bodies = 0, shapes = 0,
                   constraints = [] \<rparr>"

definition add_body :: "Space \<Rightarrow> Space" where
  "add_body sp = sp\<lparr>bodies := Suc (bodies sp)\<rparr>"

definition add_shape :: "Space \<Rightarrow> Space" where
  "add_shape sp = sp\<lparr>shapes := Suc (shapes sp)\<rparr>"

definition add_constraint :: "ConstraintKind \<Rightarrow> real option \<Rightarrow> Space \<Rightarrow> Space" where
  "add_constraint k mf sp =
     sp\<lparr>constraints := constraints sp @ [\<lparr>kind = k, joint_max_force = mf\<rparr>]\<rparr>"

text \<open>The geoms of a viewer, by what they draw.\<close>

datatype Geom = RobotCompound | FingerGeom | ShapeCompound

text \<open>
  \<open>gym_render.Viewer\<close>: the configured size, the persistent and the one-time geoms, the
  world-to-pixel transform, and the state of the window.
\<close>

record Viewer =
  width :: int
  height :: int
  geoms :: "Geom list"
  onetime_geoms :: "Geom list"
  transform :: Transform
  isopen :: bool
  visible :: bool

definition Viewer_init :: "int \<Rightarrow> int \<Rightarrow> bool \<Rightarrow> Viewer" where
  "Viewer_init w h vis =
     \<lparr> width = w, height = h, geoms = [], onetime_geoms = [], transform = Transform_init,
       isopen = True, visible = vis \<rparr>"

definition reset_geoms :: "Viewer \<Rightarrow> Viewer" where
  "reset_geoms v = v\<lparr>geoms := [], onetime_geoms := []\<rparr>"

definition add_geom :: "Geom \<Rightarrow> Viewer \<Rightarrow> Viewer" where
  "add_geom g v = v\<lparr>geoms := geoms v @ [g]\<rparr>"

text \<open>\<open>Viewer.set_bounds(left, right, bottom, top)\<close>\<close>

definition set_bounds :: "Viewer \<Rightarrow> real \<Rightarrow> real \<Rightarrow> real \<Rightarrow> real \<Rightarrow> error + Viewer" where
  "set_bounds v l r b t =
     (if \<not> (r > l \<and> t > b) then Inl AssertionError
      else let scalex = real_of_int (width v) / (r - l);
               scaley = real_of_int (height v) / (t - b)
           in Inr (v\<lparr>transform := \<lparr> translation = (- l * scalex, - b * scaley), rotation = 0,
                                      scale = (scalex, scaley) \<rparr>\<rparr>))"

section \<open>entities.py: setup of the entities\<close>

text \<open>
  \<open>class PhysicsVariables\<close> of \<open>base_env.py\<close>: one force limit per kind of joint.
\<close>

record PhysicsVariables =
  robot_pos_joint_max_force :: real
  robot_rot_joint_max_force :: real
  robot_finger_max_force :: real
  shape_trans_joint_max_force :: real
  shape_rot_joint_max_force :: real

text \<open>
  Modelled from the spec: \<open>PhysicsVariables.defaults()\<close> is inherited from
  \<open>milbench.phys_vars.PhysicsVariablesBase\<close>, which is not under src/.  The spec (section 4.2)
  has it return the nominal constant of each field: the first argument of each \<open>PhysVar\<close> in
  \<open>base_env.py\<close>.
\<close>

definition PhysicsVariables_defaults :: PhysicsVariables where
  "PhysicsVariables_defaults =
     \<lparr> robot_pos_joint_max_force = 3, robot_rot_joint_max_force = 1,
       robot_finger_max_force = 4, shape_trans_joint_max_force = 3 / 2,
       shape_rot_joint_max_force = 1 / 10 \<rparr>"

text \<open>The values that can be passed to a \<open>setup\<close> method.\<close>

datatype pyobj = ViewerObj Viewer | SpaceObj Space | PhysVarsObj PhysicsVariables | NoneObj

text \<open>
  \<open>Entity.setup(self, viewer, space)\<close>: two positional arguments besides \<open>self\<close>.  Python
  raises \<open>TypeError\<close> for a call with any other number of them.  (A call with two arguments
  that are not a viewer and a space fails as well; the model gives \<open>TypeError\<close> there too.)
  The method stores weak references to both; the model hands both back to the subclass.
\<close>

fun Entity_setup :: "pyobj list \<Rightarrow> error + (Viewer \<times> Space)" where
  "Entity_setup [ViewerObj v, SpaceObj sp] = Inr (v, sp)"
| "Entity_setup args = Inl TypeError"

definition vadd :: "Vec2d \<Rightarrow> Vec2d \<Rightarrow> Vec2d" where
  "vadd v w = (fst v + fst w, snd v + snd w)"

definition vsub :: "Vec2d \<Rightarrow> Vec2d \<Rightarrow> Vec2d" where
  "vsub v w = (fst v - fst w, snd v - snd w)"

definition vscale :: "real \<Rightarrow> Vec2d \<Rightarrow> Vec2d" where
  "vscale c v = (c * fst v, c * snd v)"

definition Body_init :: Body where
  "Body_init = \<lparr> angle = 0, position = (0, 0), velocity = (0, 0) \<rparr>"

text \<open>
  The first finger loop of \<open>Robot.setup\<close>, for one \<open>finger_side\<close>: the finger body at
  \<open>finger_loc\<close>, and in the space the body, its pin joint, its rotary limit joint and its
  motor (\<open>max_force = 2\<close>).
\<close>

definition finger_loc :: "real \<Rightarrow> real \<Rightarrow> Vec2d" where
  "finger_loc rad finger_side =
     (let buffer_width = 2 * rad;
          buffer_thickness = 1 / 4 * rad;
          finger_length = 6 / 5 * rad;
          finger_dy = (0, finger_length / 2);
          finger_dx = (buffer_thickness / 2, 0);
          buffer_pos = (0, rad);
          buffer_dy = (0, buffer_thickness / 2);
          buffer_dx = (buffer_width / 2, 0)
      in vadd (vsub (vsub (vadd buffer_pos (vscale finger_side buffer_dx)) buffer_dy)
                    (vscale finger_side finger_dx)) finger_dy)"

fun setup_fingers :: "Robot \<Rightarrow> real list \<Rightarrow> Space
                        \<Rightarrow> Body list \<times> SimpleMotor list \<times> Space" where
  "setup_fingers r [] sp = ([], [], sp)"
| "setup_fingers r (finger_side # sides) sp =
     (let finger_body = Body_init\<lparr>position := finger_loc (radius r) finger_side\<rparr>;
          sp = add_body sp;
          sp = add_constraint PinJoint None sp;
          sp = add_constraint RotaryLimitJoint None sp;
          finger_motor = \<lparr> rate = 0, max_bias = 0, max_force = 2 \<rparr>;
          sp = add_constraint MotorJoint (Some 2) sp;
          (fbs, fms, sp) = setup_fingers r sides sp
      in (finger_body # fbs, finger_motor # fms, sp))"

text \<open>
  \<open>Robot.setup(self, *args, **kwargs)\<close>: the arguments go to \<open>Entity.setup\<close> unchanged.
  Then the main body, the kinematic control body with its two joints (\<open>max_force\<close> 3 and 1,
  written as literals), the fingers, four collision shapes, and three geoms.
\<close>

definition Robot_setup :: "Robot \<Rightarrow> pyobj list \<Rightarrow> error + (Robot \<times> Viewer \<times> Space)" where
  "Robot_setup r args =
     bind_res (Entity_setup args) (\<lambda>(v, sp).
       let body = Body_init;
           sp = add_body sp;
           cbody = Body_init\<lparr>position := init_pos r, angle := init_angle r\<rparr>;
           sp = add_body sp;
           sp = add_constraint PivotJoint (Some 3) sp;
           sp = add_constraint GearJoint (Some 1) sp;
           (fbs, fms, sp) = setup_fingers r [- 1, 1] sp;
           sp = add_shape sp;
           sp = add_shape sp;
           sp = add_shape (add_shape sp);
           v = add_geom RobotCompound v;
           v = add_geom FingerGeom (add_geom FingerGeom v)
       in Inr (r\<lparr>target_finger_angle := Some 0,
                  rig := Some \<lparr> robot_body = body, control_body = cbody,
                                finger_bodies = fbs, finger_motors = fms,
                                robot_xform = Transform_init,
                                finger_xforms = [Transform_init, Transform_init] \<rparr>\<rparr>,
               v, sp))"

text \<open>\<open>class ArenaBoundaries\<close>\<close>

record ArenaBoundaries =
  arena_left :: real
  arena_right :: real
  arena_top :: real
  arena_bottom :: real
  seg_rad :: real

text \<open>\<open>ArenaBoundaries.setup\<close>: four static segments, added to the space in one call.\<close>

definition Arena_setup :: "ArenaBoundaries \<Rightarrow> pyobj list
                             \<Rightarrow> error + (ArenaBoundaries \<times> Viewer \<times> Space)" where
  "Arena_setup a args =
     bind_res (Entity_setup args) (\<lambda>(v, sp).
       Inr (a, v, add_shape (add_shape (add_shape (add_shape sp)))))"

text \<open>
  \<open>class ShapeType(enum.Enum)\<close> has four members.  Python does not check the argument of
  \<open>Shape.__init__\<close>, so \<open>shape_type\<close> may be any other value: \<open>OtherShapeType\<close> stands for
  those, tagged by a name.
\<close>

datatype ShapeType = CIRCLE | SQUARE | TRIANGLE | PENTAGON | OtherShapeType string

type_synonym rgb = "real \<times> real \<times> real"

record Shape =
  shape_type :: ShapeType
  shape_size :: real
  colour :: rgb
  shape_init_pos :: Vec2d
  shape_init_angle :: real
  shape_mass :: real
  shape_body :: "Body option"
  shape_xform :: "Transform option"

text \<open>
  \<open>Shape.__init__(shape_type, colour_name, shape_size, init_pos, init_angle, mass=0.5)\<close>.
  The only statement that can raise is the lookup \<open>COLOURS_RGB[colour_name]\<close>; the table is
  defined in \<open>milbench.style\<close>, not under src/, and is a parameter here.
\<close>

definition Shape_init :: "(string \<rightharpoonup> rgb) \<Rightarrow> ShapeType \<Rightarrow> string \<Rightarrow> real \<Rightarrow> Vec2d \<Rightarrow> real \<Rightarrow> real
                            \<Rightarrow> error + Shape" where
  "Shape_init COLOURS_RGB st colour_name sz pos ang m =
     (case COLOURS_RGB colour_name of
        None \<Rightarrow> Inl KeyError
      | Some c \<Rightarrow> Inr \<lparr> shape_type = st, shape_size = sz, colour = c, shape_init_pos = pos,
                        shape_init_angle = ang, shape_mass = m, shape_body = None,
                        shape_xform = None \<rparr>)"

text \<open>
  \<open>Shape.setup(self, *args, **kwargs)\<close>.  After \<open>Entity.setup\<close> the method branches on the
  shape type; every implemented branch creates one body at the initial pose and one collision
  shape, and the last branch raises \<open>NotImplementedError\<close>.  Then the two joints to the static
  body (\<open>max_force\<close> 1.5 and 0.1, written as literals) and one geom.  The vertices of the
  polygons come from \<open>milbench.geom\<close> (not under src/) and are not modelled.
\<close>

definition Shape_setup :: "Shape \<Rightarrow> pyobj list \<Rightarrow> error + (Shape \<times> Viewer \<times> Space)" where
  "Shape_setup s args =
     bind_res (Entity_setup args) (\<lambda>(v, sp).
       let body = Body_init\<lparr>position := shape_init_pos s, angle := shape_init_angle s\<rparr>
       in if shape_type s = SQUARE \<or> shape_type s = CIRCLE
             \<or> shape_type s = TRIANGLE \<or> shape_type s = PENTAGON
          then let sp = add_body sp;
                   sp = add_shape sp;
                   sp = add_constraint PivotJoint (Some (3 / 2)) sp;
                   sp = add_constraint GearJoint (Some (1 / 10)) sp;
                   v = add_geom ShapeCompound v
               in Inr (s\<lparr>shape_body := Some body, shape_xform := Some Transform_init\<rparr>, v, sp)
          else Inl NotImplementedError)"

text \<open>The entities of a scene, and the dispatch of their methods.\<close>

datatype Entity = RobotEntity Robot | ShapeEntity Shape | ArenaEntity ArenaBoundaries

fun is_Robot :: "Entity \<Rightarrow> bool" where
  "is_Robot (RobotEntity r) = True"
| "is_Robot e = False"

type_synonym setup_method = "Entity \<Rightarrow> pyobj list \<Rightarrow> error + (Entity \<times> Viewer \<times> Space)"

text \<open>\<open>entity.setup(...)\<close> on the classes of \<open>entities.py\<close>.\<close>

fun entity_setup :: setup_method where
  "entity_setup (RobotEntity r) args =
     bind_res (Robot_setup r args) (\<lambda>(r', v, sp). Inr (RobotEntity r', v, sp))"
| "entity_setup (ShapeEntity s) args =
     bind_res (Shape_setup s args) (\<lambda>(s', v, sp). Inr (ShapeEntity s', v, sp))"
| "entity_setup (ArenaEntity a) args =
     bind_res (Arena_setup a args) (\<lambda>(a', v, sp). Inr (ArenaEntity a', v, sp))"

text \<open>
  \<open>entity.update(dt)\<close>: \<open>Robot.update\<close> for a robot; the other classes inherit
  \<open>Entity.update\<close>, which does nothing.
\<close>

fun entity_update :: "Entity \<Rightarrow> real \<Rightarrow> error + Entity" where
  "entity_update (RobotEntity r) dt = bind_res (Robot_update r dt) (\<lambda>r'. Inr (RobotEntity r'))"
| "entity_update e dt = Inr e"

text \<open>
  \<open>entity.pre_draw()\<close>: \<open>Robot.pre_draw\<close> and \<open>Shape.pre_draw\<close> copy the pose of each body
  to the transform of its geom; \<open>ArenaBoundaries\<close> inherits \<open>Entity.pre_draw\<close>, which does
  nothing.
\<close>

definition set_pose :: "Transform \<Rightarrow> Body \<Rightarrow> Transform" where
  "set_pose x b = x\<lparr>translation := position b, rotation := angle b\<rparr>"

fun draw_fingers :: "Transform list \<Rightarrow> Body list \<Rightarrow> Transform list" where
  "draw_fingers (x # xs) (b # bs) = set_pose x b # draw_fingers xs bs"
| "draw_fingers xs bs = xs"

definition Robot_pre_draw :: "Robot \<Rightarrow> error + Robot" where
  "Robot_pre_draw r =
     (case rig r of
        None \<Rightarrow> Inl AttributeError
      | Some g \<Rightarrow>
          Inr (r\<lparr>rig := Some (g\<lparr>robot_xform := set_pose (robot_xform g) (robot_body g),
                                  finger_xforms := draw_fingers (finger_xforms g)
                                                     (finger_bodies g)\<rparr>)\<rparr>))"

definition Shape_pre_draw :: "Shape \<Rightarrow> error + Shape" where
  "Shape_pre_draw s =
     (case shape_xform s of
        None \<Rightarrow> Inl AttributeError
      | Some x \<Rightarrow>
          (case shape_body s of
             None \<Rightarrow> Inl AttributeError
           | Some b \<Rightarrow> Inr (s\<lparr>shape_xform := Some (set_pose x b)\<rparr>)))"

fun entity_pre_draw :: "Entity \<Rightarrow> error + Entity" where
  "entity_pre_draw (RobotEntity r) = bind_res (Robot_pre_draw r) (\<lambda>r'. Inr (RobotEntity r'))"
| "entity_pre_draw (ShapeEntity s) = bind_res (Shape_pre_draw s) (\<lambda>s'. Inr (ShapeEntity s'))"
| "entity_pre_draw (ArenaEntity a) = Inr (ArenaEntity a)"

section \<open>gym\_render.py: reading the pixels back\<close>

text \<open>
  The colour buffer that pyglet hands to \<open>Viewer.render\<close>: its own height and width, and its
  bytes (rows from the bottom, four channels per pixel).
\<close>

record ColorBuffer =
  buf_height :: nat
  buf_width :: nat
  buf_data :: "8 word list"

type_synonym image = "8 word list list list"

text \<open>
  \<open>arr.reshape(h, w, 4)\<close> of a flat array: numpy raises \<open>ValueError\<close> unless the array has
  \<open>h * w * 4\<close> elements; element \<open>[i][j]\<close> of the result is the four bytes from offset
  \<open>(i * w + j) * 4\<close>.
\<close>

definition reshape_rgba :: "nat \<Rightarrow> nat \<Rightarrow> 8 word list \<Rightarrow> error + image" where
  "reshape_rgba h w arr =
     (if length arr \<noteq> h * w * 4 then Inl ValueError
      else Inr (map (\<lambda>i. map (\<lambda>j. take 4 (drop ((i * w + j) * 4) arr)) [0..<w]) [0..<h]))"

text \<open>\<open>arr[::-1, :, 0:3]\<close>: the rows in reverse order, the first three channels of each pixel.\<close>

definition flip_rgb :: "image \<Rightarrow> image" where
  "flip_rgb arr = map (map (take 3)) (rev arr)"

datatype render_result = Pixels image | WindowOpen bool

text \<open>
  \<open>Viewer.render(return_rgb_array)\<close>.  Drawing the geoms is pyglet's work; its outcome is the
  colour buffer \<open>buffer\<close>, which is read only when pixels are requested.  The array is shaped
  by the height and width of the buffer, not by the size the viewer was created with, as the
  comment in the source explains.
\<close>

definition Viewer_render :: "Viewer \<Rightarrow> ColorBuffer \<Rightarrow> bool \<Rightarrow> error + (render_result \<times> Viewer)" where
  "Viewer_render v buffer return_rgb_array =
     (if return_rgb_array
      then bind_res (reshape_rgba (buf_height buffer) (buf_width buffer) (buf_data buffer))
             (\<lambda>arr. Inr (Pixels (flip_rgb arr), v\<lparr>onetime_geoms := []\<rparr>))
      else Inr (WindowOpen (isopen v), v\<lparr>onetime_geoms := []\<rparr>))"

section \<open>base\_env.py: the environment\<close>

text \<open>
  The calls that one frame makes to the entities and to the physics space: \<open>UpdateCall i dt\<close>
  is \<open>update(dt)\<close> on the entity at index \<open>i\<close> of the entity list, \<open>SpaceStepCall dt\<close> is
  \<open>space.step(dt)\<close>.
\<close>

datatype call = UpdateCall nat real | SpaceStepCall real

text \<open>
  \<open>class BaseEnv\<close>.  The attributes that \<open>__init__\<close> sets to \<open>None\<close> are optional.  The robot is
  one of the entities (\<open>add_entities\<close> appends the object it stores in \<open>_robot\<close>), so \<open>robot\<close>
  is an index into the entity list.  \<open>rng\<close> is the state of the random source.  \<open>calls\<close> is
  not an attribute of the class: it logs the calls above, to state their number and order.
\<close>

record BaseEnv =
  phys_iter :: int
  phys_steps :: int
  fps :: real
  res_hw :: "int \<times> int"
  max_episode_steps :: "int option"
  rand_dynamics :: bool
  entities :: "Entity list option"
  space :: "Space option"
  robot :: "nat option"
  episode_steps :: "int option"
  phys_vars :: "PhysicsVariables option"
  viewer :: "Viewer option"
  arena :: "ArenaBoundaries option"
  rng :: nat
  calls :: "call list"

text \<open>
  \<open>BaseEnv.__init__(res_hw=(256, 256), fps=20, phys_steps=10, phys_iter=10,
  max_episode_steps=None, rand_dynamics=False)\<close>, with the seed that \<open>self.seed()\<close> draws.
\<close>

definition BaseEnv_init :: "int \<times> int \<Rightarrow> real \<Rightarrow> int \<Rightarrow> int \<Rightarrow> int option \<Rightarrow> bool \<Rightarrow> nat
                              \<Rightarrow> BaseEnv" where
  "BaseEnv_init res f psteps piter max_steps rand_dyn seed =
     \<lparr> phys_iter = piter, phys_steps = psteps, fps = f, res_hw = res,
       max_episode_steps = max_steps, rand_dynamics = rand_dyn,
       entities = None, space = None, robot = None, episode_steps = None, phys_vars = None,
       viewer = None, arena = None, rng = seed, calls = [] \<rparr>"

text \<open>
  What the environment takes from outside the repository: the integration step of pymunk, which
  moves the bodies that the entities hold; the colour buffer that pyglet returns after drawing;
  and \<open>PhysicsVariables.sample(rng)\<close> (\<open>milbench.phys_vars\<close> is not under src/).
\<close>

record externals =
  pm_step :: "real \<Rightarrow> Entity list \<Rightarrow> Entity list"
  color_buffer :: "Viewer \<Rightarrow> Entity list \<Rightarrow> ColorBuffer"
  sample_phys_vars :: "nat \<Rightarrow> PhysicsVariables \<times> nat"

text \<open>
  The abstract methods of \<open>BaseEnv\<close>, which each scenario implements: \<open>on_reset\<close> changes the
  environment (it adds the entities) and returns a value, of which only \<open>is None\<close> is tested;
  \<open>score_on_end_of_traj\<close> returns a number.
\<close>

record scenario =
  on_reset :: "BaseEnv \<Rightarrow> error + (bool \<times> BaseEnv)"
  score_on_end_of_traj :: "BaseEnv \<Rightarrow> real"

definition ARENA_BOUNDS_LRBT :: "real \<times> real \<times> real \<times> real" where
  "ARENA_BOUNDS_LRBT = (- 1, 1, - 1, 1)"

definition viewer_obj :: "BaseEnv \<Rightarrow> pyobj" where
  "viewer_obj env = (case viewer env of None \<Rightarrow> NoneObj | Some v \<Rightarrow> ViewerObj v)"

definition space_obj :: "BaseEnv \<Rightarrow> pyobj" where
  "space_obj env = (case space env of None \<Rightarrow> NoneObj | Some sp \<Rightarrow> SpaceObj sp)"

definition phys_vars_obj :: "BaseEnv \<Rightarrow> pyobj" where
  "phys_vars_obj env = (case phys_vars env of None \<Rightarrow> NoneObj | Some pv \<Rightarrow> PhysVarsObj pv)"

text \<open>
  \<open>BaseEnv.add_entities(entities)\<close>.  For each entity in turn: remember it if it is a robot,
  append it to the entity list, then call its \<open>setup\<close> with three arguments, the viewer,
  the space and the physics variables.  \<open>su\<close> is the \<open>setup\<close> method that the call
  dispatches to; it may change the entity, the viewer and the space.
\<close>

fun add_entities :: "setup_method \<Rightarrow> BaseEnv \<Rightarrow> Entity list \<Rightarrow> error + BaseEnv" where
  "add_entities su env [] = Inr env"
| "add_entities su env (entity # rest) =
     (case entities env of
        None \<Rightarrow> Inl AttributeError
      | Some es \<Rightarrow>
          (let env = (if is_Robot entity then env\<lparr>robot := Some (length es)\<rparr> else env);
               env = env\<lparr>entities := Some (es @ [entity])\<rparr>
           in case su entity [viewer_obj env, space_obj env, phys_vars_obj env] of
                Inl e \<Rightarrow> Inl e
              | Inr (entity', v, sp) \<Rightarrow>
                  add_entities su
                    (env\<lparr>entities := Some (es @ [entity']), viewer := Some v, space := Some sp\<rparr>)
                    rest))"

text \<open>\<open>for ent in self._entities: ent.pre_draw()\<close>\<close>

fun pre_draw_all :: "Entity list \<Rightarrow> error + Entity list" where
  "pre_draw_all [] = Inr []"
| "pre_draw_all (ent # ents) =
     bind_res (entity_pre_draw ent) (\<lambda>ent'.
       bind_res (pre_draw_all ents) (\<lambda>ents'. Inr (ent' # ents')))"

text \<open>
  \<open>BaseEnv.render(mode)\<close>: \<open>None\<close> without a viewer; otherwise every entity is pre-drawn and
  the viewer renders, always with \<open>return_rgb_array=True\<close>.
\<close>

definition BaseEnv_render :: "externals \<Rightarrow> BaseEnv \<Rightarrow> string
                                \<Rightarrow> error + (render_result option \<times> BaseEnv)" where
  "BaseEnv_render X env mode =
     (case viewer env of
        None \<Rightarrow> Inr (None, env)
      | Some v \<Rightarrow>
          (case entities env of
             None \<Rightarrow> Inl TypeError
           | Some es \<Rightarrow>
               bind_res (pre_draw_all es) (\<lambda>es'.
               bind_res (if mode = ''human'' then Inr (v\<lparr>visible := True\<rparr>)
                         else if mode = ''rgb_array'' then Inr v
                         else Inl AssertionError) (\<lambda>v.
               bind_res (Viewer_render v (color_buffer X v es') True) (\<lambda>(res, v').
                 Inr (Some res, env\<lparr>entities := Some es', viewer := Some v'\<rparr>))))))"

text \<open>\<open>isinstance(self._robot, en.Robot)\<close>\<close>

definition robot_is_Robot :: "BaseEnv \<Rightarrow> bool" where
  "robot_is_Robot env =
     (case robot env of
        None \<Rightarrow> False
      | Some i \<Rightarrow> (case entities env of
                     None \<Rightarrow> False
                   | Some es \<Rightarrow> i < length es \<and> is_Robot (es ! i)))"

text \<open>
  The first part of \<open>BaseEnv.reset()\<close>, up to the construction of the arena: the step
  counter is zeroed and the old scene dropped; the viewer is created (with the configured
  resolution) or emptied; a new space and the physics variables are made.  The result is the
  environment and the arena that \<open>reset\<close> adds next.
\<close>

definition new_scene :: "externals \<Rightarrow> BaseEnv \<Rightarrow> BaseEnv \<times> ArenaBoundaries" where
  "new_scene X env0 =
     (let env = env0\<lparr>episode_steps := Some 0, entities := Some [], space := None,
                     robot := None, phys_vars := None\<rparr>;
          env = (case viewer env of
                   None \<Rightarrow> (let (res_h, res_w) = res_hw env
                            in env\<lparr>viewer := Some (Viewer_init res_w res_h False)\<rparr>)
                 | Some v \<Rightarrow> env\<lparr>viewer := Some (reset_geoms v)\<rparr>);
          env = env\<lparr>space := Some (Space_init\<lparr>collision_slop := 1 / 100,
                                                iterations := phys_iter env\<rparr>)\<rparr>;
          env = (if rand_dynamics env
                 then (let (pv, g) = sample_phys_vars X (rng env)
                       in env\<lparr>phys_vars := Some pv, rng := g\<rparr>)
                 else env\<lparr>phys_vars := Some PhysicsVariables_defaults\<rparr>);
          (arena_l, arena_r, arena_b, arena_t) = ARENA_BOUNDS_LRBT;
          a = \<lparr> arena_left = arena_l, arena_right = arena_r, arena_top = arena_t,
                arena_bottom = arena_b, seg_rad = 1 \<rparr>
      in (env\<lparr>arena := Some a\<rparr>, a))"

text \<open>
  \<open>BaseEnv.reset()\<close>.  After the part above the arena is added; the scenario's \<open>on_reset\<close>
  adds the rest and must return \<open>None\<close>; the two assertions are checked; the bounds of the
  viewer are set and the first frame is rendered.
\<close>

definition reset :: "setup_method \<Rightarrow> externals \<Rightarrow> scenario \<Rightarrow> BaseEnv
                       \<Rightarrow> error + (render_result option \<times> BaseEnv)" where
  "reset su X sc env0 =
     (let (env, a) = new_scene X env0
      in bind_res (add_entities su env [ArenaEntity a]) (\<lambda>env.
         bind_res (on_reset sc env) (\<lambda>(reset_rv_is_None, env).
           if \<not> reset_rv_is_None then Inl AssertionError
           else if \<not> robot_is_Robot env then Inl AssertionError
           else (case entities env of
                   None \<Rightarrow> Inl TypeError
                 | Some es \<Rightarrow>
                     if \<not> length es \<ge> 1 then Inl AssertionError
                     else (case (viewer env, arena env) of
                             (Some v, Some a) \<Rightarrow>
                               bind_res (set_bounds v (arena_left a) (arena_right a)
                                           (arena_bottom a) (arena_top a)) (\<lambda>v.
                                 BaseEnv_render X (env\<lparr>viewer := Some v\<rparr>) ''rgb_array'')
                           | _ \<Rightarrow> Inl AttributeError)))))"

text \<open>\<open>for ent in self._entities: ent.update(dt)\<close>\<close>

fun update_all :: "real \<Rightarrow> Entity list \<Rightarrow> error + Entity list" where
  "update_all dt [] = Inr []"
| "update_all dt (ent # ents) =
     bind_res (entity_update ent dt) (\<lambda>ent'.
       bind_res (update_all dt ents) (\<lambda>ents'. Inr (ent' # ents')))"

text \<open>
  One pass of the outer loop of \<open>_phys_steps_on_frame\<close>: every entity is updated, then the
  space is stepped once.
\<close>

definition sub_step :: "externals \<Rightarrow> real \<Rightarrow> BaseEnv \<Rightarrow> error + BaseEnv" where
  "sub_step X dt env =
     (case entities env of
        None \<Rightarrow> Inl TypeError
      | Some es \<Rightarrow>
          bind_res (update_all dt es) (\<lambda>es'.
            case space env of
              None \<Rightarrow> Inl AttributeError
            | Some sp \<Rightarrow>
                Inr (env\<lparr>entities := Some (pm_step X dt es'),
                         calls := calls env @ map (\<lambda>i. UpdateCall i dt) [0..<length es]
                                    @ [SpaceStepCall dt]\<rparr>)))"

text \<open>\<open>for i in range(n)\<close> around it.\<close>

fun frame_loop :: "externals \<Rightarrow> real \<Rightarrow> nat \<Rightarrow> BaseEnv \<Rightarrow> error + BaseEnv" where
  "frame_loop X dt 0 env = Inr env"
| "frame_loop X dt (Suc n) env = bind_res (sub_step X dt env) (frame_loop X dt n)"

text \<open>
  \<open>BaseEnv._phys_steps_on_frame()\<close>.  The number of sub-steps is the local constant 10 of the
  source; the attribute \<open>self.phys_steps\<close> is not read.  \<open>1 / self.fps\<close> raises
  \<open>ZeroDivisionError\<close> for a frame rate of zero.
\<close>

definition phys_steps_on_frame :: "externals \<Rightarrow> BaseEnv \<Rightarrow> error + BaseEnv" where
  "phys_steps_on_frame X env =
     (let phys_steps = (10 :: nat)
      in if fps env = 0 then Inl ZeroDivisionError
         else let spf = 1 / fps env;
                  dt = spf / real phys_steps
              in frame_loop X dt phys_steps env)"

text \<open>What \<open>step\<close> returns: the observation, the reward, \<open>done\<close> (here
  \<open>is_done\<close>) and the \<open>info\<close> dictionary.\<close>

record step_result =
  obs :: "render_result option"
  reward :: real
  is_done :: bool
  info :: "string \<rightharpoonup> real"

text \<open>\<open>self._robot.set_action(action_flag)\<close>, on the robot in the entity list.\<close>

definition robot_set_action :: "BaseEnv \<Rightarrow> int \<Rightarrow> error + BaseEnv" where
  "robot_set_action env action_flag =
     (case robot env of
        None \<Rightarrow> Inl AttributeError
      | Some i \<Rightarrow>
          (case entities env of
             None \<Rightarrow> Inl AttributeError
           | Some es \<Rightarrow>
               if i < length es
               then (case es ! i of
                       RobotEntity r \<Rightarrow>
                         Inr (env\<lparr>entities := Some (es[i := RobotEntity (set_action r action_flag)])\<rparr>)
                     | _ \<Rightarrow> Inl AttributeError)
               else Inl AttributeError))"

text \<open>
  \<open>BaseEnv.step(action)\<close>.  \<open>tbl\<close> is the action table.  The reward is the literal \<open>0.0\<close>;
  \<open>done\<close> is set only when \<open>max_episode_steps\<close> is not \<open>None\<close>; the score is computed and
  asserted to lie in \<open>[0, 1]\<close> only when \<open>done\<close>; \<open>info\<close> always has the key \<open>eval_score\<close>.
\<close>

definition step :: "flag_triple list \<Rightarrow> externals \<Rightarrow> scenario \<Rightarrow> BaseEnv \<Rightarrow> int
                      \<Rightarrow> error + (step_result \<times> BaseEnv)" where
  "step tbl X sc env0 action =
     bind_res (action_to_flags tbl action) (\<lambda>(ac_flag_ud, ac_flag_lr, ac_flag_grip).
       let action_flag = NONE;
           action_flag = action_flag OR ac_flag_ud;
           action_flag = action_flag OR ac_flag_lr;
           action_flag = action_flag OR ac_flag_grip
       in bind_res (robot_set_action env0 action_flag) (\<lambda>env.
          bind_res (phys_steps_on_frame X env) (\<lambda>env.
            let info0 = Map.empty;
                rew = 0
            in case episode_steps env of
                 None \<Rightarrow> Inl TypeError
               | Some n \<Rightarrow>
                   let env = env\<lparr>episode_steps := Some (n + 1)\<rparr>;
                       dn = False;
                       eval_score = 0;
                       dn = (case max_episode_steps env of
                               None \<Rightarrow> dn
                             | Some m \<Rightarrow> dn \<or> n + 1 \<ge> m)
                   in bind_res (if dn
                                then (let eval_score = score_on_end_of_traj sc env
                                      in if 0 \<le> eval_score \<and> eval_score \<le> 1
                                         then Inr eval_score else Inl AssertionError)
                                else Inr eval_score) (\<lambda>eval_score.
                      let info1 = info0(''eval_score'' \<mapsto> eval_score)
                      in bind_res (BaseEnv_render X env ''rgb_array'') (\<lambda>(obs_u8, env).
                           Inr (\<lparr> obs = obs_u8, reward = rew, is_done = dn, info = info1 \<rparr>,
                                env))))))"

section \<open>Concrete scenes\<close>

text \<open>
  The constants of \<open>BaseEnv\<close> and its two factory methods, \<open>_make_robot\<close> and
  \<open>_make_shape\<close>.
\<close>

definition ROBOT_RAD :: real where "ROBOT_RAD = 1 / 5"
definition ROBOT_MASS :: real where "ROBOT_MASS = 1"
definition SHAPE_RAD :: real where "SHAPE_RAD = ROBOT_RAD * 3 / 5"

definition make_robot :: "Vec2d \<Rightarrow> real \<Rightarrow> Robot" where
  "make_robot pos ang = Robot_init ROBOT_RAD pos ang ROBOT_MASS"

definition make_shape :: "(string \<rightharpoonup> rgb) \<Rightarrow> ShapeType \<Rightarrow> string \<Rightarrow> Vec2d \<Rightarrow> real \<Rightarrow> error + Shape" where
  "make_shape COLOURS_RGB st colour_name pos ang =
     Shape_init COLOURS_RGB st colour_name SHAPE_RAD pos ang (1 / 2)"

text \<open>
  Externals for concrete runs: an integration step that leaves every body where it is, a
  colour buffer of the viewer's size filled with white, and sampling that returns the
  defaults.
\<close>

definition still_externals :: externals where
  "still_externals =
     \<lparr> pm_step = (\<lambda>dt es. es),
       color_buffer = (\<lambda>v es. \<lparr> buf_height = nat (height v), buf_width = nat (width v),
                                  buf_data = replicate (nat (height v) * nat (width v) * 4) 255 \<rparr>),
       sample_phys_vars = (\<lambda>g. (PhysicsVariables_defaults, g)) \<rparr>"

text \<open>
  Scenarios whose \<open>on_reset\<close> adds the given robots, in one call of \<open>add_entities\<close>, and
  returns \<open>None\<close>; the score is the given number.
\<close>

definition robots_scenario :: "setup_method \<Rightarrow> Robot list \<Rightarrow> real \<Rightarrow> scenario" where
  "robots_scenario su rs sc =
     \<lparr> on_reset = (\<lambda>env. bind_res (add_entities su env (map RobotEntity rs))
                               (\<lambda>env. Inr (True, env))),
       score_on_end_of_traj = (\<lambda>env. sc) \<rparr>"

section \<open>Running an episode\<close>

text \<open>
  Calling \<open>step\<close> once for each action of a list, as a caller of the environment does; the
  first exception ends the run.
\<close>

fun run_steps :: "flag_triple list \<Rightarrow> externals \<Rightarrow> scenario \<Rightarrow> BaseEnv \<Rightarrow> int list
                    \<Rightarrow> error + (step_result list \<times> BaseEnv)" where
  "run_steps tbl X sc env [] = Inr ([], env)"
| "run_steps tbl X sc env (a # as) =
     bind_res (step tbl X sc env a) (\<lambda>(r, env').
       bind_res (run_steps tbl X sc env' as) (\<lambda>(rs, env''). Inr (r # rs, env'')))"

text \<open>
  A scene that has been set up, as far as \<open>step\<close> depends on it: every entity of the
  list has the attributes that its \<open>setup\<close> creates, there is a space, and \<open>_robot\<close> is
  a robot of the list.
\<close>

fun entity_ready :: "Entity \<Rightarrow> bool" where
  "entity_ready (RobotEntity r) = (rig r \<noteq> None \<and> target_finger_angle r \<noteq> None)"
| "entity_ready (ShapeEntity s) = (shape_body s \<noteq> None \<and> shape_xform s \<noteq> None)"
| "entity_ready (ArenaEntity a) = True"

definition scene_ready :: "BaseEnv \<Rightarrow> bool" where
  "scene_ready env =
     (case entities env of
        None \<Rightarrow> False
      | Some es \<Rightarrow> list_all entity_ready es \<and> space env \<noteq> None \<and> robot_is_Robot env)"

text \<open>
  What is assumed of pymunk and pyglet: an integration step moves bodies, so it keeps the
  number of entities, their classes and the attributes that \<open>setup\<close> created; and a colour
  buffer holds four bytes for each of its pixels.
\<close>

definition keeps_scene :: "(real \<Rightarrow> Entity list \<Rightarrow> Entity list) \<Rightarrow> bool" where
  "keeps_scene f =
     (\<forall>dt es. length (f dt es) = length es
        \<and> (\<forall>i < length es. is_Robot (f dt es ! i) = is_Robot (es ! i)
               \<and> (entity_ready (es ! i) \<longrightarrow> entity_ready (f dt es ! i))))"

definition good_buffers :: "externals \<Rightarrow> bool" where
  "good_buffers X =
     (\<forall>v es. length (buf_data (color_buffer X v es))
               = buf_height (color_buffer X v es) * buf_width (color_buffer X v es) * 4)"

definition externals_ok :: "externals \<Rightarrow> bool" where
  "externals_ok X = (keeps_scene (pm_step X) \<and> good_buffers X)"

text \<open>The combined flag that \<open>step\<close> passes to the robot for a flag triple.\<close>

fun action_flag_of :: "flag_triple \<Rightarrow> int" where
  "action_flag_of (ud, lr, grip) = ((NONE OR ud) OR lr) OR grip"

text \<open>
  The attributes of the environment at the moment the first call of \<open>setup\<close> in \<open>reset\<close>
  is made: \<open>reset\<close> has built the new scene, and \<open>add_entities\<close> has appended the arena to
  the entity list (the append comes before the call); no robot has been added.  When that call
  raises, this is the state the environment is left in.
\<close>

definition arena_scene :: "externals \<Rightarrow> BaseEnv \<Rightarrow> BaseEnv" where
  "arena_scene X env0 =
     (let (env, a) = new_scene X env0 in env\<lparr>entities := Some [ArenaEntity a]\<rparr>)"

text \<open>
  A robot as \<open>Robot.setup\<close> leaves it, with its first finger turned by a hundredth of a
  radian.
\<close>

definition demo_robot :: Robot where
  "demo_robot =
     (make_robot (0, 0) 0)
       \<lparr> target_finger_angle := Some 0,
         rig := Some \<lparr> robot_body = Body_init, control_body = Body_init,
                       finger_bodies = [Body_init\<lparr>angle := 1 / 100\<rparr>, Body_init],
                       finger_motors = [\<lparr> rate = 0, max_bias = 0, max_force = 2 \<rparr>,
                                        \<lparr> rate = 0, max_bias = 0, max_force = 2 \<rparr>],
                       robot_xform = Transform_init,
                       finger_xforms = [Transform_init, Transform_init] \<rparr> \<rparr>"

text \<open>
  The calls of one sub-step on a scene of \<open>n\<close> entities, and the invariant of the scene
  on the entity list and the robot index.
\<close>

definition sub_step_calls :: "nat \<Rightarrow> real \<Rightarrow> call list" where
  "sub_step_calls n dt = map (\<lambda>i. UpdateCall i dt) [0..<n] @ [SpaceStepCall dt]"

definition scene_ok :: "Entity list \<Rightarrow> nat option \<Rightarrow> bool" where
  "scene_ok es ri =
     (list_all entity_ready es \<and> (\<exists>i. ri = Some i \<and> i < length es \<and> is_Robot (es ! i)))"

section \<open>Properties of the robot control\<close>

subsection \<open>Decoding the action flags\<close>

lemma set_action_target_speed:
  "target_speed (set_action r a) =
     (if a AND UP \<noteq> 0 \<and> a AND DOWN \<noteq> 0 then 0
      else if a AND UP \<noteq> 0 then 4 * radius r
      else if a AND DOWN \<noteq> 0 then - 3 * radius r
      else 0)"
  by (simp add: set_action_def Let_def)

lemma set_action_rel_turn_angle:
  "rel_turn_angle (set_action r a) =
     (if a AND LEFT \<noteq> 0 then 3 / 2 else 0) - (if a AND RIGHT \<noteq> 0 then 3 / 2 else 0)"
  by (simp add: set_action_def Let_def)

lemma set_action_target_finger_angle:
  "target_finger_angle (set_action r a) =
     (if a AND OPEN \<noteq> 0 then Some (finger_rot_limit_outer r)
      else if a AND CLOSE \<noteq> 0 then Some (- finger_rot_limit_inner r)
      else target_finger_angle r)"
  by (simp add: set_action_def Let_def)

lemmas flag_defs = NONE_def UP_def DOWN_def LEFT_def RIGHT_def OPEN_def CLOSE_def

text \<open>
  Claim C4.  For every flag bitmask \<open>a\<close> given to \<open>Robot.set_action\<close> of a robot of positive
  radius: with both UP and DOWN set the target speed is exactly zero; UP alone gives the positive
  speed \<open>4 * radius\<close> and DOWN alone the negative speed \<open>- 3 * radius\<close>, smaller in magnitude
  than the UP speed; with neither LEFT nor RIGHT set the relative turn rate is zero, LEFT alone
  gives \<open>3/2\<close> and RIGHT alone \<open>- 3/2\<close>; OPEN sets the target finger angle to the outward
  limit, CLOSE (with OPEN absent, see C10) to the negated inward limit, and with neither flag
  the target finger angle is unchanged.
\<close>

theorem set_action_decodes_flags:
  assumes "0 < radius r"
  shows "(a AND UP \<noteq> 0 \<and> a AND DOWN \<noteq> 0 \<longrightarrow> target_speed (set_action r a) = 0)
       \<and> (a AND UP \<noteq> 0 \<and> a AND DOWN = 0 \<longrightarrow>
            target_speed (set_action r a) = 4 * radius r \<and> 0 < target_speed (set_action r a))
       \<and> (a AND DOWN \<noteq> 0 \<and> a AND UP = 0 \<longrightarrow>
            target_speed (set_action r a) = - 3 * radius r
            \<and> target_speed (set_action r a) < 0
            \<and> \<bar>target_speed (set_action r a)\<bar> < \<bar>4 * radius r\<bar>)
       \<and> (a AND LEFT = 0 \<and> a AND RIGHT = 0 \<longrightarrow> rel_turn_angle (set_action r a) = 0)
       \<and> (a AND LEFT \<noteq> 0 \<and> a AND RIGHT = 0 \<longrightarrow> rel_turn_angle (set_action r a) = 3 / 2)
       \<and> (a AND RIGHT \<noteq> 0 \<and> a AND LEFT = 0 \<longrightarrow> rel_turn_angle (set_action r a) = - 3 / 2)
       \<and> (a AND OPEN \<noteq> 0 \<longrightarrow>
            target_finger_angle (set_action r a) = Some (finger_rot_limit_outer r))
       \<and> (a AND CLOSE \<noteq> 0 \<and> a AND OPEN = 0 \<longrightarrow>
            target_finger_angle (set_action r a) = Some (- finger_rot_limit_inner r))
       \<and> (a AND OPEN = 0 \<and> a AND CLOSE = 0 \<longrightarrow>
            target_finger_angle (set_action r a) = target_finger_angle r)"
proof -
  have speed: "(a AND UP \<noteq> 0 \<and> a AND DOWN \<noteq> 0 \<longrightarrow> target_speed (set_action r a) = 0)
       \<and> (a AND UP \<noteq> 0 \<and> a AND DOWN = 0 \<longrightarrow>
            target_speed (set_action r a) = 4 * radius r \<and> 0 < target_speed (set_action r a))
       \<and> (a AND DOWN \<noteq> 0 \<and> a AND UP = 0 \<longrightarrow>
            target_speed (set_action r a) = - 3 * radius r
            \<and> target_speed (set_action r a) < 0
            \<and> \<bar>target_speed (set_action r a)\<bar> < \<bar>4 * radius r\<bar>)"
    using assms by (simp add: set_action_target_speed)
  have turn: "(a AND LEFT = 0 \<and> a AND RIGHT = 0 \<longrightarrow> rel_turn_angle (set_action r a) = 0)
       \<and> (a AND LEFT \<noteq> 0 \<and> a AND RIGHT = 0 \<longrightarrow> rel_turn_angle (set_action r a) = 3 / 2)
       \<and> (a AND RIGHT \<noteq> 0 \<and> a AND LEFT = 0 \<longrightarrow> rel_turn_angle (set_action r a) = - 3 / 2)"
    by (simp add: set_action_rel_turn_angle)
  have grip: "(a AND OPEN \<noteq> 0 \<longrightarrow>
            target_finger_angle (set_action r a) = Some (finger_rot_limit_outer r))
       \<and> (a AND CLOSE \<noteq> 0 \<and> a AND OPEN = 0 \<longrightarrow>
            target_finger_angle (set_action r a) = Some (- finger_rot_limit_inner r))
       \<and> (a AND OPEN = 0 \<and> a AND CLOSE = 0 \<longrightarrow>
            target_finger_angle (set_action r a) = target_finger_angle r)"
    by (simp add: set_action_target_finger_angle)
  from speed turn grip show ?thesis by blast
qed

text \<open>
  The theorem at the robot that \<open>BaseEnv._make_robot\<close> builds (radius \<open>0.2\<close>, mass \<open>1.0\<close>),
  once for each antecedent: UP+DOWN (3), UP (1), DOWN (2), no flag (0), LEFT (4), RIGHT (8),
  OPEN (16) and CLOSE (32).
\<close>

theorem set_action_decodes_flags_witness:
  "0 < radius (Robot_init (1/5) (0, 0) 0 1)
   \<and> target_speed (set_action (Robot_init (1/5) (0, 0) 0 1) 3) = 0
   \<and> target_speed (set_action (Robot_init (1/5) (0, 0) 0 1) 1) = 4 / 5
   \<and> target_speed (set_action (Robot_init (1/5) (0, 0) 0 1) 2) = - 3 / 5
   \<and> rel_turn_angle (set_action (Robot_init (1/5) (0, 0) 0 1) 0) = 0
   \<and> rel_turn_angle (set_action (Robot_init (1/5) (0, 0) 0 1) 4) = 3 / 2
   \<and> rel_turn_angle (set_action (Robot_init (1/5) (0, 0) 0 1) 8) = - 3 / 2
   \<and> target_finger_angle (set_action (Robot_init (1/5) (0, 0) 0 1) 16) = Some (pi / 8)
   \<and> target_finger_angle (set_action (Robot_init (1/5) (0, 0) 0 1) 32) = Some (- (pi / 8))
   \<and> target_finger_angle (set_action (Robot_init (1/5) (0, 0) 0 1) 0) = None"
proof -
  let ?R = "Robot_init (1/5) (0, 0) 0 1"
  have h: "0 < radius ?R"
    by (simp add: Robot_init_def)
  have fields: "radius ?R = 1/5" "finger_rot_limit_outer ?R = pi / 8"
    "finger_rot_limit_inner ?R = pi / 8" "target_finger_angle ?R = None"
    by (simp_all add: Robot_init_def)
  have 1: "target_speed (set_action ?R 3) = 0"
    using set_action_decodes_flags [OF h, of 3] by (simp add: flag_defs)
  have 2: "target_speed (set_action ?R 1) = 4 / 5"
    using set_action_decodes_flags [OF h, of 1] by (simp add: flag_defs fields)
  have 3: "target_speed (set_action ?R 2) = - 3 / 5"
    using set_action_decodes_flags [OF h, of 2] by (simp add: flag_defs fields)
  have 4: "rel_turn_angle (set_action ?R 0) = 0"
    using set_action_decodes_flags [OF h, of 0] by (simp add: flag_defs)
  have 5: "rel_turn_angle (set_action ?R 4) = 3 / 2"
    using set_action_decodes_flags [OF h, of 4] by (simp add: flag_defs)
  have 6: "rel_turn_angle (set_action ?R 8) = - 3 / 2"
    using set_action_decodes_flags [OF h, of 8] by (simp add: flag_defs)
  have 7: "target_finger_angle (set_action ?R 16) = Some (pi / 8)"
    using set_action_decodes_flags [OF h, of 16] by (simp add: flag_defs fields)
  have 8: "target_finger_angle (set_action ?R 32) = Some (- (pi / 8))"
    using set_action_decodes_flags [OF h, of 32] by (simp add: flag_defs fields)
  have 9: "target_finger_angle (set_action ?R 0) = None"
    using set_action_decodes_flags [OF h, of 0] by (simp add: flag_defs fields)
  from h 1 2 3 4 5 6 7 8 9 show ?thesis by blast
qed

text \<open>
  Claim C10.  For every flag bitmask in which both OPEN and CLOSE are set,
  \<open>Robot.set_action\<close> sets the target finger angle to the outward (open) limit.  OPEN has
  priority: a bitmask with OPEN set gives the same robot whether CLOSE is added to it or not.
\<close>

theorem set_action_open_has_priority:
  "(a AND OPEN \<noteq> 0 \<and> a AND CLOSE \<noteq> 0 \<longrightarrow>
      target_finger_angle (set_action r a) = Some (finger_rot_limit_outer r))
   \<and> (a AND OPEN \<noteq> 0 \<longrightarrow> set_action r (a OR CLOSE) = set_action r a)"
proof (intro conjI impI)
  assume "a AND OPEN \<noteq> 0 \<and> a AND CLOSE \<noteq> 0"
  then show "target_finger_angle (set_action r a) = Some (finger_rot_limit_outer r)"
    by (simp add: set_action_target_finger_angle)
next
  assume "a AND OPEN \<noteq> 0"
  then show "set_action r (a OR CLOSE) = set_action r a"
    by (simp add: set_action_def Let_def bit.conj_disj_distrib2 flag_defs)
qed

theorem set_action_open_has_priority_witness:
  "(48 :: int) AND OPEN \<noteq> 0 \<and> (48 :: int) AND CLOSE \<noteq> 0
   \<and> target_finger_angle (set_action (Robot_init (1/5) (0, 0) 0 1) 48) = Some (pi / 8)
   \<and> (16 :: int) AND OPEN \<noteq> 0
   \<and> set_action (Robot_init (1/5) (0, 0) 0 1) 48 = set_action (Robot_init (1/5) (0, 0) 0 1) 16"
  using set_action_open_has_priority [of 48 "Robot_init (1/5) (0, 0) 0 1"]
    set_action_open_has_priority [of 16 "Robot_init (1/5) (0, 0) 0 1"]
  by (simp add: flag_defs Robot_init_def)

subsection \<open>The finger motors\<close>

lemma update_fingers_length: "length (update_fingers ba tfa fbs fms sides) = length fms"
  by (induction ba tfa fbs fms sides rule: update_fingers.induct) simp_all

lemma update_fingers_nth:
  "i < length fbs \<Longrightarrow> i < length fms \<Longrightarrow> i < length sides \<Longrightarrow>
   rate (update_fingers ba tfa fbs fms sides ! i)
     = finger_target_rate ba (angle (fbs ! i)) (sides ! i) tfa"
proof (induction ba tfa fbs fms sides arbitrary: i rule: update_fingers.induct)
  case (1 ba tfa fb fbs fm fms side sides)
  then show ?case by (cases i) simp_all
qed simp_all

lemma finger_target_rate_range:
  "- 1 \<le> finger_target_rate ba fa s t \<and> finger_target_rate ba fa s t \<le> 1"
  by (simp add: finger_target_rate_def Let_def)

lemma finger_target_rate_snap:
  "finger_target_rate ba fa s t = 0 \<or> 1 / 10000 \<le> \<bar>finger_target_rate ba fa s t\<bar>"
  by (simp add: finger_target_rate_def Let_def)

text \<open>
  Claim C8.  On a robot that has been set up (its bodies, motors and target finger angle exist),
  \<open>Robot.update(dt)\<close> returns, and afterwards the rate of each finger motor that the loop
  reaches (index \<open>i\<close> below 2 and below the numbers of finger bodies and motors) is the
  finger's angle error times 10, clamped to \<open>[-1, 1]\<close>, with a value of magnitude below
  \<open>1e-4\<close> replaced by exactly 0; so the rate lies in \<open>[-1, 1]\<close> and is zero or of magnitude
  at least \<open>1e-4\<close>.  The angle error of finger \<open>i\<close> is its angle relative to the robot body
  plus the finger side (\<open>-1\<close> or \<open>1\<close>) times the target finger angle.
\<close>

theorem Robot_update_motor_rate:
  assumes "rig r = Some g" and "target_finger_angle r = Some tfa"
    and "i < length (finger_bodies g)" and "i < length (finger_motors g)" and "i < 2"
  shows "\<exists>r' g'. Robot_update r dt = Inr r' \<and> rig r' = Some g'
           \<and> length (finger_motors g') = length (finger_motors g)
           \<and> (let angle_error = angle (finger_bodies g ! i) - angle (robot_body g)
                                   + [- 1, 1] ! i * tfa;
                   clamped = max (- 1) (min 1 (angle_error * 10));
                   rt = rate (finger_motors g' ! i)
               in rt = (if \<bar>clamped\<bar> < 1 / 10000 then 0 else clamped)
                  \<and> - 1 \<le> rt \<and> rt \<le> 1 \<and> (rt = 0 \<or> 1 / 10000 \<le> \<bar>rt\<bar>))"
proof -
  let ?ms = "update_fingers (angle (robot_body g)) tfa (finger_bodies g) (finger_motors g) [- 1, 1]"
  let ?cb = "(control_body g)\<lparr>angle := angle (robot_body g) + rel_turn_angle r,
               velocity := cpvrotate (rotation_vector (robot_body g)) (0, target_speed r)\<rparr>"
  let ?g' = "g\<lparr>control_body := ?cb, finger_motors := ?ms\<rparr>"
  from assms(3,4) have ne: "finger_bodies g \<noteq> []" "finger_motors g \<noteq> []"
    by auto
  have run: "Robot_update r dt = Inr (r\<lparr>rig := Some ?g'\<rparr>)"
    using assms(1,2) ne by (simp add: Robot_update_def Let_def)
  have sel: "finger_motors ?g' = ?ms"
    by simp
  have rt: "rate (?ms ! i)
      = finger_target_rate (angle (robot_body g)) (angle (finger_bodies g ! i)) ([- 1, 1] ! i) tfa"
    using assms(3,4,5) by (intro update_fingers_nth) simp_all
  have val: "rate (?ms ! i) =
      (if \<bar>max (- 1) (min 1 ((angle (finger_bodies g ! i) - angle (robot_body g)
                                  + [- 1, 1] ! i * tfa) * 10))\<bar> < 1 / 10000
       then 0
       else max (- 1) (min 1 ((angle (finger_bodies g ! i) - angle (robot_body g)
                                  + [- 1, 1] ! i * tfa) * 10)))"
    unfolding rt finger_target_rate_def Let_def by (rule refl)
  have lo: "- 1 \<le> rate (?ms ! i)" and hi: "rate (?ms ! i) \<le> 1"
    unfolding rt using finger_target_rate_range by blast+
  have snap: "rate (?ms ! i) = 0 \<or> 1 / 10000 \<le> \<bar>rate (?ms ! i)\<bar>"
    unfolding rt by (rule finger_target_rate_snap)
  have len: "length ?ms = length (finger_motors g)"
    by (rule update_fingers_length)
  show ?thesis
  proof (intro exI conjI)
    show "Robot_update r dt = Inr (r\<lparr>rig := Some ?g'\<rparr>)" by (rule run)
    show "rig (r\<lparr>rig := Some ?g'\<rparr>) = Some ?g'" by simp
    show "length (finger_motors ?g') = length (finger_motors g)"
      unfolding sel by (rule len)
    show "let angle_error = angle (finger_bodies g ! i) - angle (robot_body g)
                                   + [- 1, 1] ! i * tfa;
              clamped = max (- 1) (min 1 (angle_error * 10));
              rt = rate (finger_motors ?g' ! i)
          in rt = (if \<bar>clamped\<bar> < 1 / 10000 then 0 else clamped)
             \<and> - 1 \<le> rt \<and> rt \<le> 1 \<and> (rt = 0 \<or> 1 / 10000 \<le> \<bar>rt\<bar>)"
      unfolding Let_def sel by (intro conjI val lo hi snap)
  qed
qed

theorem Robot_update_motor_rate_witness:
  "\<exists>r' g'. Robot_update demo_robot (1 / 200) = Inr r' \<and> rig r' = Some g'
      \<and> length (finger_motors g') = 2
      \<and> rate (finger_motors g' ! 0) = 1 / 10
      \<and> rate (finger_motors g' ! 1) = 0"
proof -
  let ?g = "\<lparr> robot_body = Body_init, control_body = Body_init,
              finger_bodies = [Body_init\<lparr>angle := 1 / 100\<rparr>, Body_init],
              finger_motors = [\<lparr> rate = 0, max_bias = 0, max_force = 2 \<rparr>,
                               \<lparr> rate = 0, max_bias = 0, max_force = 2 \<rparr>],
              robot_xform = Transform_init,
              finger_xforms = [Transform_init, Transform_init] \<rparr>"
  have g: "rig demo_robot = Some ?g" by (simp add: demo_robot_def)
  have t: "target_finger_angle demo_robot = Some 0" by (simp add: demo_robot_def)
  have b0: "0 < length (finger_bodies ?g)" and m0: "0 < length (finger_motors ?g)" by simp_all
  have b1: "1 < length (finger_bodies ?g)" and m1: "1 < length (finger_motors ?g)" by simp_all
  from Robot_update_motor_rate [OF g t b0 m0, of "1 / 200"]
  obtain r' g' where r': "Robot_update demo_robot (1 / 200) = Inr r'" "rig r' = Some g'"
    "length (finger_motors g') = length (finger_motors ?g)"
    and v0: "rate (finger_motors g' ! 0) = 1 / 10"
    by (auto simp: Let_def Body_init_def)
  from Robot_update_motor_rate [OF g t b1 m1, of "1 / 200"] r'(1,2)
  have v1: "rate (finger_motors g' ! 1) = 0"
    by (auto simp: Let_def Body_init_def)
  from r' v0 v1 show ?thesis by (intro exI [of _ r'] exI [of _ g']) simp
qed

section \<open>Properties of the action table\<close>

lemma ACTION_FLAGS_eq: "ACTION_FLAGS =
  [(0,0,16),(0,0,32),(0,4,16),(0,4,32),(0,8,16),(0,8,32),
   (1,0,16),(1,0,32),(1,4,16),(1,4,32),(1,8,16),(1,8,32),
   (2,0,16),(2,0,32),(2,4,16),(2,4,32),(2,8,16),(2,8,32)]"
  by (simp add: ACTION_FLAGS_def flag_defs)

lemma length_ACTION_FLAGS: "length ACTION_FLAGS = 18"
  by (simp add: ACTION_FLAGS_eq)

lemma distinct_ACTION_FLAGS: "distinct ACTION_FLAGS"
  by (simp add: ACTION_FLAGS_eq)

lemma map_of_rev_distinct:
  assumes "distinct (map fst xs)"
  shows "map_of (rev xs) = map_of xs"
proof -
  have "distinct (map fst (rev xs))"
    using assms by (simp add: rev_map [symmetric])
  moreover have "set (rev xs) = set xs" by simp
  ultimately show ?thesis using assms by (simp add: map_of_inject_set)
qed

lemma FLAGS_TO_ACTION_ID_nth:
  assumes "distinct tbl" and "i < length tbl"
  shows "FLAGS_TO_ACTION_ID tbl (tbl ! i) = Some (int i)"
proof -
  have d: "distinct (map fst (zip tbl (map int [0..<length tbl])))"
    using assms(1) by (simp add: map_fst_zip)
  have "map_of (zip tbl (map int [0..<length tbl])) (tbl ! i) = Some (map int [0..<length tbl] ! i)"
    using assms by (intro map_of_zip_nth) simp_all
  then have "map_of (zip tbl (map int [0..<length tbl])) (tbl ! i) = Some (int i)"
    using assms(2) by simp
  then show ?thesis
    unfolding FLAGS_TO_ACTION_ID_def using d by (simp add: map_of_rev_distinct)
qed

lemma action_round_trip:
  assumes "distinct tbl" and "0 \<le> a" and "a < int (length tbl)"
  shows "bind_res (action_to_flags tbl a) (\<lambda>(ud, lr, grip). flags_to_action tbl [ud, lr, grip]) = Inr a"
proof -
  obtain ud lr grip where t: "tbl ! nat a = (ud, lr, grip)"
    by (cases "tbl ! nat a") auto
  have 1: "action_to_flags tbl a = Inr (ud, lr, grip)"
    using assms(2,3) t by (simp add: action_to_flags_def ACTION_ID_TO_FLAGS_def)
  have "FLAGS_TO_ACTION_ID tbl (tbl ! nat a) = Some (int (nat a))"
    using assms by (intro FLAGS_TO_ACTION_ID_nth) simp_all
  then have 2: "FLAGS_TO_ACTION_ID tbl (ud, lr, grip) = Some a"
    using assms(2) t by simp
  show ?thesis by (simp add: 1 2)
qed

lemma flags_round_trip:
  assumes "distinct tbl" and "(ud, lr, grip) \<in> set tbl"
  shows "bind_res (flags_to_action tbl [ud, lr, grip]) (action_to_flags tbl) = Inr (ud, lr, grip)"
proof -
  from assms(2) obtain i where i: "i < length tbl" "tbl ! i = (ud, lr, grip)"
    by (auto simp: in_set_conv_nth)
  have "FLAGS_TO_ACTION_ID tbl (tbl ! i) = Some (int i)"
    using assms(1) i(1) by (rule FLAGS_TO_ACTION_ID_nth)
  then have 1: "flags_to_action tbl [ud, lr, grip] = Inr (int i)"
    using i(2) by simp
  have 2: "action_to_flags tbl (int i) = Inr (ud, lr, grip)"
    using i by (simp add: action_to_flags_def ACTION_ID_TO_FLAGS_def)
  show ?thesis unfolding 1 by (simp add: 2)
qed

text \<open>
  Claim C6.  With \<open>N = 18\<close> the size of the action table: for every action index \<open>a\<close> in
  \<open>[0, N)\<close>, \<open>flags_to_action(action_to_flags(a))\<close> returns \<open>a\<close>; and for every flag triple
  \<open>t\<close> of the table, \<open>action_to_flags(flags_to_action(t))\<close> returns \<open>t\<close>.  Neither lookup
  raises.  So the table is a bijection between the indices and its triples.
\<close>

theorem action_table_round_trip:
  "(\<forall>a. 0 \<le> a \<and> a < int (length ACTION_FLAGS) \<longrightarrow>
        bind_res (action_to_flags ACTION_FLAGS a)
          (\<lambda>(ud, lr, grip). flags_to_action ACTION_FLAGS [ud, lr, grip]) = Inr a)
   \<and> (\<forall>(ud, lr, grip) \<in> set ACTION_FLAGS.
        bind_res (flags_to_action ACTION_FLAGS [ud, lr, grip]) (action_to_flags ACTION_FLAGS)
          = Inr (ud, lr, grip))
   \<and> length ACTION_FLAGS = 18"
  using action_round_trip [OF distinct_ACTION_FLAGS] flags_round_trip [OF distinct_ACTION_FLAGS]
    length_ACTION_FLAGS
  by auto

theorem action_table_round_trip_witness:
  "bind_res (action_to_flags ACTION_FLAGS 7)
          (\<lambda>(ud, lr, grip). flags_to_action ACTION_FLAGS [ud, lr, grip]) = Inr 7
   \<and> (UP, LEFT, CLOSE) \<in> set ACTION_FLAGS
   \<and> bind_res (flags_to_action ACTION_FLAGS [UP, LEFT, CLOSE]) (action_to_flags ACTION_FLAGS)
          = Inr (UP, LEFT, CLOSE)"
proof -
  have m: "(UP, LEFT, CLOSE) \<in> set ACTION_FLAGS"
    by (simp add: ACTION_FLAGS_def flag_defs)
  have r: "(0::int) \<le> 7 \<and> 7 < int (length ACTION_FLAGS)"
    by (simp add: length_ACTION_FLAGS)
  from action_table_round_trip r
  have 1: "bind_res (action_to_flags ACTION_FLAGS 7)
          (\<lambda>(ud, lr, grip). flags_to_action ACTION_FLAGS [ud, lr, grip]) = Inr 7"
    by blast
  from action_table_round_trip m
  have 2: "bind_res (flags_to_action ACTION_FLAGS [UP, LEFT, CLOSE])
             (action_to_flags ACTION_FLAGS) = Inr (UP, LEFT, CLOSE)"
    by blast
  from 1 m 2 show ?thesis by blast
qed

section \<open>Properties of setup\<close>

lemmas scene_defs = new_scene_def BaseEnv_init_def Viewer_init_def Space_init_def
  PhysicsVariables_defaults_def ARENA_BOUNDS_LRBT_def reset_geoms_def
  viewer_obj_def space_obj_def phys_vars_obj_def Arena_setup_def Robot_setup_def Shape_setup_def
  add_body_def add_shape_def add_constraint_def add_geom_def Body_init_def Transform_init_def
  make_robot_def Robot_init_def ROBOT_RAD_def ROBOT_MASS_def finger_loc_def vadd_def vsub_def vscale_def
  still_externals_def robots_scenario_def robot_is_Robot_def set_bounds_def
  BaseEnv_render_def Viewer_render_def reshape_rgba_def flip_rgb_def
  Robot_pre_draw_def Shape_pre_draw_def set_pose_def

lemma Entity_setup_three: "Entity_setup [a, b, c] = Inl TypeError"
  by (cases a; cases b) simp_all

lemma entity_setup_three: "entity_setup e [a, b, c] = Inl TypeError"
  by (cases e) (simp_all add: Robot_setup_def Shape_setup_def Arena_setup_def Entity_setup_three)

lemma add_entities_TypeError:
  "add_entities entity_setup (env\<lparr>entities := Some es\<rparr>) (e # rest) = Inl TypeError"
  by (simp add: Let_def entity_setup_three)

lemma new_scene_entities: "entities (fst (new_scene X env0)) = Some []"
  by (simp add: new_scene_def Let_def ARENA_BOUNDS_LRBT_def split: option.split prod.split)

lemma reset_TypeError: "reset entity_setup X sc env0 = Inl TypeError"
proof -
  obtain env a where na: "new_scene X env0 = (env, a)"
    by (cases "new_scene X env0") auto
  then have "entities env = Some []"
    using new_scene_entities [of X env0] by simp
  then have "add_entities entity_setup env [ArenaEntity a] = Inl TypeError"
    by (simp add: Let_def entity_setup_three)
  then show ?thesis
    by (simp add: reset_def na)
qed

lemma Robot_setup_joint_forces:
  "\<exists>r' v' sp'. Robot_setup r [ViewerObj v, SpaceObj sp] = Inr (r', v', sp')
      \<and> map joint_max_force (constraints sp')
          = map joint_max_force (constraints sp)
              @ [Some 3, Some 1, None, None, Some 2, None, None, Some 2]"
  by (simp add: Robot_setup_def Let_def add_body_def add_shape_def add_constraint_def add_geom_def)

lemma Shape_setup_joint_forces:
  "shape_type s \<in> {CIRCLE, SQUARE, TRIANGLE, PENTAGON} \<Longrightarrow>
   \<exists>s' v' sp'. Shape_setup s [ViewerObj v, SpaceObj sp] = Inr (s', v', sp')
      \<and> map joint_max_force (constraints sp')
          = map joint_max_force (constraints sp) @ [Some (3/2), Some (1/10)]"
  by (auto simp add: Shape_setup_def Let_def add_body_def add_shape_def add_constraint_def add_geom_def)

subsection \<open>The state in which the arena's setup is called\<close>

lemma new_scene_robot: "robot (fst (new_scene X env0)) = None"
  by (simp add: new_scene_def Let_def ARENA_BOUNDS_LRBT_def split: option.split prod.split)

lemma new_scene_episode_steps: "episode_steps (fst (new_scene X env0)) = Some 0"
  by (simp add: new_scene_def Let_def ARENA_BOUNDS_LRBT_def split: option.split prod.split)

lemma arena_scene_fields:
  "entities (arena_scene X env0) = Some [ArenaEntity (snd (new_scene X env0))]"
  "robot (arena_scene X env0) = None"
  "episode_steps (arena_scene X env0) = Some 0"
  using new_scene_robot [of X env0] new_scene_episode_steps [of X env0]
  by (simp_all add: arena_scene_def split_beta)

lemma add_entities_arena_call:
  "add_entities su (fst (new_scene X env0)) [ArenaEntity (snd (new_scene X env0))]
     = (case su (ArenaEntity (snd (new_scene X env0)))
               [viewer_obj (arena_scene X env0), space_obj (arena_scene X env0),
                phys_vars_obj (arena_scene X env0)] of
          Inl e \<Rightarrow> Inl e
        | Inr (e', v, sp) \<Rightarrow>
            Inr ((arena_scene X env0)\<lparr>entities := Some [e'], viewer := Some v, space := Some sp\<rparr>))"
  using new_scene_entities [of X env0]
  by (simp add: arena_scene_def split_beta Let_def split: sum.splits)

text \<open>
  Claim C3.  \<open>add_entities\<close> appends each entity and then calls its \<open>setup\<close> once, with three
  arguments.  On the classes of \<open>entities.py\<close> that call does not complete: \<open>Entity.setup\<close>
  takes two arguments, so the first entity added raises \<open>TypeError\<close>, whatever the state of the
  environment, and \<open>reset\<close>, which adds the arena first, raises it for every scenario.  Called
  with a viewer and a space alone, \<open>Robot.setup\<close> gives its joints the force limits 3, 1 and 2
  that are written in its body; no physics variable is read.
\<close>

theorem add_entities_setup_raises:
  "add_entities entity_setup (env\<lparr>entities := Some es\<rparr>) (e # rest) = Inl TypeError
   \<and> reset entity_setup X sc env0 = Inl TypeError
   \<and> (\<exists>r' v' sp'. Robot_setup r [ViewerObj v, SpaceObj sp] = Inr (r', v', sp')
          \<and> map joint_max_force (constraints sp')
              = map joint_max_force (constraints sp)
                  @ [Some 3, Some 1, None, None, Some 2, None, None, Some 2])"
proof (intro conjI)
  show "add_entities entity_setup (env\<lparr>entities := Some es\<rparr>) (e # rest) = Inl TypeError"
    by (rule add_entities_TypeError)
  show "reset entity_setup X sc env0 = Inl TypeError"
    by (rule reset_TypeError)
  show "\<exists>r' v' sp'. Robot_setup r [ViewerObj v, SpaceObj sp] = Inr (r', v', sp')
          \<and> map joint_max_force (constraints sp')
              = map joint_max_force (constraints sp)
                  @ [Some 3, Some 1, None, None, Some 2, None, None, Some 2]"
    by (rule Robot_setup_joint_forces)
qed

section \<open>Properties of shapes\<close>

lemma Shape_init_ok:
  "COLOURS colour_name = Some c \<Longrightarrow>
   Shape_init COLOURS st colour_name sz pos ang m =
     Inr \<lparr> shape_type = st, shape_size = sz, colour = c, shape_init_pos = pos,
           shape_init_angle = ang, shape_mass = m, shape_body = None, shape_xform = None \<rparr>"
  by (simp add: Shape_init_def)

lemma Shape_setup_unimplemented:
  "shape_type s \<notin> {CIRCLE, SQUARE, TRIANGLE, PENTAGON} \<Longrightarrow>
   Shape_setup s [ViewerObj v, SpaceObj sp] = Inl NotImplementedError"
  by (simp add: Shape_setup_def Let_def)

text \<open>
  Claim C9, as the code has it.  Constructing a \<open>Shape\<close> with an unimplemented shape type
  does not fail: \<open>__init__\<close> stores the type unchecked (given a known colour name).  The
  \<open>NotImplementedError\<close> is raised by \<open>Shape.setup\<close>, when it is called with a viewer and
  a space.
\<close>

theorem Shape_unimplemented_type_raises_in_setup:
  assumes "st \<notin> {CIRCLE, SQUARE, TRIANGLE, PENTAGON}" and "COLOURS_RGB colour_name = Some c"
  shows "\<exists>s. Shape_init COLOURS_RGB st colour_name sz pos ang m = Inr s
           \<and> shape_type s = st
           \<and> Shape_setup s [ViewerObj v, SpaceObj sp] = Inl NotImplementedError"
proof -
  let ?s = "\<lparr> shape_type = st, shape_size = sz, colour = c, shape_init_pos = pos,
              shape_init_angle = ang, shape_mass = m, shape_body = None, shape_xform = None \<rparr>"
  have i: "Shape_init COLOURS_RGB st colour_name sz pos ang m = Inr ?s"
    using assms(2) by (rule Shape_init_ok)
  have t: "shape_type ?s \<notin> {CIRCLE, SQUARE, TRIANGLE, PENTAGON}"
    using assms(1) by simp
  have "Shape_setup ?s [ViewerObj v, SpaceObj sp] = Inl NotImplementedError"
    using t by (rule Shape_setup_unimplemented)
  then show ?thesis using i by (intro exI [of _ ?s]) simp
qed

theorem Shape_unimplemented_type_raises_in_setup_witness:
  "OtherShapeType ''hexagon'' \<notin> {CIRCLE, SQUARE, TRIANGLE, PENTAGON}
   \<and> (Map.empty(''red'' \<mapsto> (1 :: real, 0 :: real, 0 :: real))) ''red'' = Some (1, 0, 0)
   \<and> (\<exists>s. Shape_init (Map.empty(''red'' \<mapsto> (1, 0, 0))) (OtherShapeType ''hexagon'') ''red''
             (3 / 25) (0, 0) 0 (1 / 2) = Inr s
          \<and> shape_type s = OtherShapeType ''hexagon''
          \<and> Shape_setup s [ViewerObj (Viewer_init 2 2 False), SpaceObj Space_init]
               = Inl NotImplementedError)"
proof -
  have h1: "OtherShapeType ''hexagon'' \<notin> {CIRCLE, SQUARE, TRIANGLE, PENTAGON}" by simp
  have h2: "(Map.empty(''red'' \<mapsto> (1 :: real, 0 :: real, 0 :: real))) ''red'' = Some (1, 0, 0)"
    by simp
  from Shape_unimplemented_type_raises_in_setup
         [where COLOURS_RGB = "Map.empty(''red'' \<mapsto> (1, 0, 0))" and colour_name = "''red''",
          OF h1 h2]
  have "\<exists>s. Shape_init (Map.empty(''red'' \<mapsto> (1, 0, 0))) (OtherShapeType ''hexagon'') ''red''
             (3 / 25) (0, 0) 0 (1 / 2) = Inr s
          \<and> shape_type s = OtherShapeType ''hexagon''
          \<and> Shape_setup s [ViewerObj (Viewer_init 2 2 False), SpaceObj Space_init]
               = Inl NotImplementedError"
    by blast
  with h1 h2 show ?thesis by blast
qed

text \<open>
  Counterexample to C9 as the spec words it (fatal at construction): the construction of a shape
  of the unimplemented type \<open>hexagon\<close> returns a shape.
\<close>

theorem Shape_init_unimplemented_type_returns:
  "make_shape (Map.empty(''red'' \<mapsto> (1, 0, 0))) (OtherShapeType ''hexagon'') ''red'' (0, 0) 0
     = Inr \<lparr> shape_type = OtherShapeType ''hexagon'', shape_size = 3 / 25, colour = (1, 0, 0),
             shape_init_pos = (0, 0), shape_init_angle = 0, shape_mass = 1 / 2,
             shape_body = None, shape_xform = None \<rparr>"
  by (simp add: make_shape_def Shape_init_def SHAPE_RAD_def ROBOT_RAD_def)

section \<open>Properties of the renderer\<close>

lemma reshape_ok:
  "length arr = h * w * 4 \<Longrightarrow>
   reshape_rgba h w arr = Inr (map (\<lambda>i. map (\<lambda>j. take 4 (drop ((i * w + j) * 4) arr)) [0..<w]) [0..<h])"
  by (simp add: reshape_rgba_def)

lemma flip_nth:
  assumes "i < h" "j < w" and len: "length arr = h * w * 4"
  shows "flip_rgb (map (\<lambda>i. map (\<lambda>j. take 4 (drop ((i * w + j) * 4) arr)) [0..<w]) [0..<h]) ! i ! j
      = take 3 (drop (((h - 1 - i) * w + j) * 4) arr)"
proof -
  have "rev [0..<h] ! i = h - 1 - i"
    using assms(1) by (simp add: rev_nth)
  then show ?thesis
    using assms(1,2) by (simp add: flip_rgb_def rev_map [symmetric] min_def rev_nth)
qed

lemma pixel_length:
  assumes "i < h" "j < w" and len: "length (arr :: 'a list) = h * w * 4"
  shows "length (take 3 (drop ((i * w + j) * 4) arr)) = 3"
proof -
  have "i * w + j < h * w"
  proof -
    have "i * w + j < i * w + w" using assms(2) by simp
    also have "\<dots> = (Suc i) * w" by simp
    also have "\<dots> \<le> h * w" using assms(1) by (intro mult_le_mono1) simp
    finally show ?thesis .
  qed
  then have "(i * w + j) * 4 + 4 \<le> length arr"
    using len by simp
  then show ?thesis by simp
qed

text \<open>
  Claim C7, as the code has it.  For every call to \<open>Viewer.render\<close> that requests pixels, on a
  colour buffer of height \<open>h\<close> and width \<open>w\<close> holding \<open>h * w * 4\<close> bytes, the result is an
  array of bytes of shape \<open>(h, w, 3)\<close>: \<open>h\<close> rows of \<open>w\<close> pixels of three channels, where row
  \<open>i\<close> is row \<open>h - 1 - i\<close> of the buffer restricted to its first three channels.  The height
  and width are those of the buffer, not those the viewer was configured with.
\<close>

theorem Viewer_render_flips_buffer:
  assumes "length (buf_data b) = buf_height b * buf_width b * 4"
  shows "\<exists>img. Viewer_render v b True = Inr (Pixels img, v\<lparr>onetime_geoms := []\<rparr>)
           \<and> length img = buf_height b
           \<and> (\<forall>i < buf_height b. length (img ! i) = buf_width b
                 \<and> (\<forall>j < buf_width b.
                        length (img ! i ! j) = 3
                      \<and> img ! i ! j
                          = take 3 (take 4 (drop (((buf_height b - 1 - i) * buf_width b + j) * 4)
                                              (buf_data b)))))"
proof -
  let ?h = "buf_height b" and ?w = "buf_width b" and ?d = "buf_data b"
  let ?arr = "map (\<lambda>i. map (\<lambda>j. take 4 (drop ((i * ?w + j) * 4) ?d)) [0..<?w]) [0..<?h]"
  have run: "Viewer_render v b True = Inr (Pixels (flip_rgb ?arr), v\<lparr>onetime_geoms := []\<rparr>)"
    using assms by (simp add: Viewer_render_def reshape_ok)
  have len: "length (flip_rgb ?arr) = ?h"
    by (simp add: flip_rgb_def)
  have rows: "\<forall>i < ?h. length (flip_rgb ?arr ! i) = ?w
                 \<and> (\<forall>j < ?w. length (flip_rgb ?arr ! i ! j) = 3
                      \<and> flip_rgb ?arr ! i ! j
                          = take 3 (take 4 (drop (((?h - 1 - i) * ?w + j) * 4) ?d)))"
  proof (intro allI impI conjI)
    fix i assume i: "i < ?h"
    show "length (flip_rgb ?arr ! i) = ?w"
      using i by (simp add: flip_rgb_def rev_nth)
    fix j assume j: "j < ?w"
    have px: "flip_rgb ?arr ! i ! j = take 3 (drop (((?h - 1 - i) * ?w + j) * 4) ?d)"
      using i j assms by (rule flip_nth)
    have "?h - 1 - i < ?h" using i by simp
    then have "length (take 3 (drop (((?h - 1 - i) * ?w + j) * 4) ?d)) = 3"
      using j assms by (rule pixel_length)
    then show "length (flip_rgb ?arr ! i ! j) = 3" using px by simp
    show "flip_rgb ?arr ! i ! j = take 3 (take 4 (drop (((?h - 1 - i) * ?w + j) * 4) ?d))"
      using px by simp
  qed
  from run len rows show ?thesis by blast
qed

theorem Viewer_render_flips_buffer_witness:
  "\<exists>img. Viewer_render (Viewer_init 2 2 False)
             \<lparr> buf_height = 2, buf_width = 2,
               buf_data = [1, 2, 3, 4, 5, 6, 7, 8, 9, 10, 11, 12, 13, 14, 15, 16] \<rparr> True
           = Inr (Pixels img, (Viewer_init 2 2 False)\<lparr>onetime_geoms := []\<rparr>)
         \<and> length img = 2 \<and> length (img ! 0) = 2
         \<and> img ! 0 ! 1 = [13, 14, 15] \<and> img ! 1 ! 0 = [1, 2, 3]"
proof -
  let ?b = "\<lparr> buf_height = 2, buf_width = 2,
               buf_data = [1, 2, 3, 4, 5, 6, 7, 8, 9, 10, 11, 12, 13, 14, 15, 16 :: 8 word] \<rparr>"
  have h: "length (buf_data ?b) = buf_height ?b * buf_width ?b * 4" by simp
  from Viewer_render_flips_buffer [OF h, of "Viewer_init 2 2 False"]
  obtain img where
    r: "Viewer_render (Viewer_init 2 2 False) ?b True
          = Inr (Pixels img, (Viewer_init 2 2 False)\<lparr>onetime_geoms := []\<rparr>)"
    and l: "length img = buf_height ?b"
    and p: "\<forall>i < buf_height ?b. length (img ! i) = buf_width ?b
                 \<and> (\<forall>j < buf_width ?b.
                        length (img ! i ! j) = 3
                      \<and> img ! i ! j
                          = take 3 (take 4 (drop (((buf_height ?b - 1 - i) * buf_width ?b + j) * 4)
                                              (buf_data ?b))))"
    by blast
  have p0: "length (img ! 0) = 2" using p by simp
  have "img ! 0 ! 1 = take 3 (take 4 (drop (((buf_height ?b - 1 - 0) * buf_width ?b + 1) * 4)
                                              (buf_data ?b)))"
    using p by simp
  then have p01: "img ! 0 ! 1 = [13, 14, 15]" by simp
  have "img ! 1 ! 0 = take 3 (take 4 (drop (((buf_height ?b - 1 - 1) * buf_width ?b + 0) * 4)
                                              (buf_data ?b)))"
    using p by simp
  then have p10: "img ! 1 ! 0 = [1, 2, 3]" by simp
  from r l p0 p01 p10 show ?thesis by (intro exI [of _ img]) simp
qed

text \<open>
  Counterexample to C7 as the spec words it (the shape is the configured resolution): a viewer
  configured with width 3 and height 2 whose
  colour buffer is 2 wide and 1 high returns one row of two pixels.
\<close>

theorem Viewer_render_shape_of_buffer:
  "Viewer_render (Viewer_init 3 2 False)
      \<lparr> buf_height = 1, buf_width = 2, buf_data = [1, 2, 3, 4, 5, 6, 7, 8] \<rparr> True
     = Inr (Pixels [[[1, 2, 3], [5, 6, 7]]], Viewer_init 3 2 False)"
  by (simp add: Viewer_render_def reshape_rgba_def flip_rgb_def Viewer_init_def upt_rec)

section \<open>Properties of the integration loop\<close>

subsection \<open>Entities that are set up stay so\<close>

lemma Robot_update_ready:
  assumes "rig r \<noteq> None" and "target_finger_angle r \<noteq> None"
  shows "\<exists>r'. Robot_update r dt = Inr r' \<and> rig r' \<noteq> None
            \<and> target_finger_angle r' = target_finger_angle r"
  using assms by (auto simp: Robot_update_def Let_def)

lemma entity_update_ready:
  assumes "entity_ready e"
  shows "\<exists>e'. entity_update e dt = Inr e' \<and> entity_ready e' \<and> is_Robot e' = is_Robot e"
proof (cases e)
  case (RobotEntity r)
  with assms obtain r' where "Robot_update r dt = Inr r'" "rig r' \<noteq> None"
    "target_finger_angle r' = target_finger_angle r"
    using Robot_update_ready [of r dt] by auto
  with RobotEntity assms show ?thesis by simp
qed (use assms in simp_all)

lemma update_all_ready:
  assumes "list_all entity_ready es"
  shows "\<exists>es'. update_all dt es = Inr es' \<and> length es' = length es
            \<and> list_all entity_ready es' \<and> map is_Robot es' = map is_Robot es"
  using assms
proof (induction es)
  case Nil
  then show ?case by simp
next
  case (Cons e es)
  then obtain e' where e': "entity_update e dt = Inr e'" "entity_ready e'" "is_Robot e' = is_Robot e"
    using entity_update_ready [of e dt] by auto
  from Cons obtain es' where es': "update_all dt es = Inr es'" "length es' = length es"
    "list_all entity_ready es'" "map is_Robot es' = map is_Robot es"
    by auto
  show ?case using e' es' by simp
qed

lemma Robot_pre_draw_ready:
  assumes "rig r \<noteq> None"
  shows "\<exists>r'. Robot_pre_draw r = Inr r' \<and> rig r' \<noteq> None
            \<and> target_finger_angle r' = target_finger_angle r"
  using assms by (auto simp: Robot_pre_draw_def)

lemma entity_pre_draw_ready:
  assumes "entity_ready e"
  shows "\<exists>e'. entity_pre_draw e = Inr e' \<and> entity_ready e' \<and> is_Robot e' = is_Robot e"
proof (cases e)
  case (RobotEntity r)
  with assms obtain r' where "Robot_pre_draw r = Inr r'" "rig r' \<noteq> None"
    "target_finger_angle r' = target_finger_angle r"
    using Robot_pre_draw_ready [of r] by auto
  with RobotEntity assms show ?thesis by simp
next
  case (ShapeEntity s)
  with assms show ?thesis by (auto simp: Shape_pre_draw_def)
next
  case (ArenaEntity a)
  then show ?thesis by simp
qed

lemma pre_draw_all_ready:
  assumes "list_all entity_ready es"
  shows "\<exists>es'. pre_draw_all es = Inr es' \<and> length es' = length es
            \<and> list_all entity_ready es' \<and> map is_Robot es' = map is_Robot es"
  using assms
proof (induction es)
  case Nil
  then show ?case by simp
next
  case (Cons e es)
  then obtain e' where e': "entity_pre_draw e = Inr e'" "entity_ready e'" "is_Robot e' = is_Robot e"
    using entity_pre_draw_ready [of e] by auto
  from Cons obtain es' where es': "pre_draw_all es = Inr es'" "length es' = length es"
    "list_all entity_ready es'" "map is_Robot es' = map is_Robot es"
    by auto
  show ?case using e' es' by simp
qed

lemma scene_ready_iff:
  "scene_ready env \<longleftrightarrow> (\<exists>es. entities env = Some es \<and> scene_ok es (robot env)) \<and> space env \<noteq> None"
  by (auto simp: scene_ready_def scene_ok_def robot_is_Robot_def split: option.splits)

lemma scene_ok_same:
  assumes "scene_ok es ri" and "length es' = length es" and "list_all entity_ready es'"
    and "map is_Robot es' = map is_Robot es"
  shows "scene_ok es' ri"
proof -
  from assms(1) obtain i where i: "ri = Some i" "i < length es" "is_Robot (es ! i)"
    by (auto simp: scene_ok_def)
  have "map is_Robot es' ! i = map is_Robot es ! i"
    using assms(4) by simp
  then have "is_Robot (es' ! i)"
    using i assms(2) by simp
  then show ?thesis
    using assms(2,3) i by (auto simp: scene_ok_def)
qed

lemma keeps_scene_ok:
  assumes "keeps_scene f" and "scene_ok es ri"
  shows "scene_ok (f dt es) ri"
proof -
  from assms(1) have len: "length (f dt es) = length es"
    and pt: "\<And>i. i < length es \<Longrightarrow> is_Robot (f dt es ! i) = is_Robot (es ! i)
               \<and> (entity_ready (es ! i) \<longrightarrow> entity_ready (f dt es ! i))"
    by (auto simp: keeps_scene_def)
  from assms(2) have rdy: "list_all entity_ready es"
    and "\<exists>i. ri = Some i \<and> i < length es \<and> is_Robot (es ! i)"
    by (auto simp: scene_ok_def)
  then obtain i where i: "ri = Some i" "i < length es" "is_Robot (es ! i)" by auto
  have "list_all entity_ready (f dt es)"
    unfolding list_all_length
  proof (intro allI impI)
    fix j assume "j < length (f dt es)"
    then have j: "j < length es" using len by simp
    then have "entity_ready (es ! j)" using rdy by (simp add: list_all_length)
    then show "entity_ready (f dt es ! j)" using pt [OF j] by simp
  qed
  moreover have "is_Robot (f dt es ! i)" using pt [OF i(2)] i(3) by simp
  ultimately show ?thesis using i len by (auto simp: scene_ok_def)
qed

lemma keeps_scene_length: "keeps_scene f \<Longrightarrow> length (f dt es) = length es"
  unfolding keeps_scene_def by blast

lemma sub_step_ready:
  assumes "entities env = Some es" and "scene_ok es (robot env)" and "space env \<noteq> None"
    and "keeps_scene (pm_step X)"
  shows "\<exists>es'. sub_step X dt env
             = Inr (env\<lparr>entities := Some es', calls := calls env @ sub_step_calls (length es) dt\<rparr>)
           \<and> length es' = length es \<and> scene_ok es' (robot env)"
proof -
  from assms(2) have "list_all entity_ready es" by (simp add: scene_ok_def)
  then obtain es1 where es1: "update_all dt es = Inr es1" "length es1 = length es"
    "list_all entity_ready es1" "map is_Robot es1 = map is_Robot es"
    using update_all_ready by blast
  have ok1: "scene_ok es1 (robot env)"
    using assms(2) es1(2,3,4) by (rule scene_ok_same)
  have ok2: "scene_ok (pm_step X dt es1) (robot env)"
    using assms(4) ok1 by (rule keeps_scene_ok)
  have len: "length (pm_step X dt es1) = length es"
    using keeps_scene_length [OF assms(4), of dt es1] es1(2) by simp
  from assms(3) obtain sp where sp: "space env = Some sp" by auto
  have "sub_step X dt env
      = Inr (env\<lparr>entities := Some (pm_step X dt es1),
                 calls := calls env @ sub_step_calls (length es) dt\<rparr>)"
    unfolding sub_step_def sub_step_calls_def by (simp add: assms(1) es1(1) sp)
  with ok2 len show ?thesis by blast
qed

lemma frame_loop_ready:
  assumes "keeps_scene (pm_step X)"
  shows "entities env = Some es \<Longrightarrow> scene_ok es (robot env) \<Longrightarrow> space env \<noteq> None \<Longrightarrow>
         \<exists>es'. frame_loop X dt n env
             = Inr (env\<lparr>entities := Some es',
                        calls := calls env @ concat (replicate n (sub_step_calls (length es) dt))\<rparr>)
           \<and> length es' = length es \<and> scene_ok es' (robot env)"
proof (induction n arbitrary: env es)
  case 0
  have "env\<lparr>entities := Some es, calls := calls env\<rparr> = env"
    using 0(1) by simp
  then have "frame_loop X dt 0 env
      = Inr (env\<lparr>entities := Some es,
                 calls := calls env @ concat (replicate 0 (sub_step_calls (length es) dt))\<rparr>)"
    by simp
  with 0(2) show ?case by blast
next
  case (Suc n)
  let ?cs = "calls env @ sub_step_calls (length es) dt"
  from sub_step_ready [OF Suc.prems assms, of dt]
  obtain es1 where s1: "sub_step X dt env = Inr (env\<lparr>entities := Some es1, calls := ?cs\<rparr>)"
    and l1: "length es1 = length es" and ok1: "scene_ok es1 (robot env)"
    by blast
  let ?env1 = "env\<lparr>entities := Some es1, calls := ?cs\<rparr>"
  have e1: "entities ?env1 = Some es1" by simp
  have r1: "scene_ok es1 (robot ?env1)" using ok1 by simp
  have sp1: "space ?env1 \<noteq> None" using Suc.prems(3) by simp
  from Suc.IH [OF e1 r1 sp1]
  obtain es' where
    f: "frame_loop X dt n ?env1
          = Inr (?env1\<lparr>entities := Some es',
                        calls := calls ?env1 @ concat (replicate n (sub_step_calls (length es1) dt))\<rparr>)"
    and l': "length es' = length es1" and ok': "scene_ok es' (robot ?env1)"
    by blast
  have "frame_loop X dt (Suc n) env
      = Inr (env\<lparr>entities := Some es',
                 calls := calls env @ concat (replicate (Suc n) (sub_step_calls (length es) dt))\<rparr>)"
    unfolding frame_loop.simps s1 bind_res.simps f l1 by simp
  moreover have "length es' = length es" using l' l1 by simp
  moreover have "scene_ok es' (robot env)" using ok' by simp
  ultimately show ?case by blast
qed

lemma phys_steps_on_frame_ready:
  assumes "entities env = Some es" and "scene_ok es (robot env)" and "space env \<noteq> None"
    and "keeps_scene (pm_step X)" and "fps env \<noteq> 0"
  shows "\<exists>es'. phys_steps_on_frame X env
             = Inr (env\<lparr>entities := Some es',
                        calls := calls env
                          @ concat (replicate 10 (sub_step_calls (length es) (1 / (fps env * 10))))\<rparr>)
           \<and> length es' = length es \<and> scene_ok es' (robot env)"
proof -
  have dt: "1 / fps env / real (10::nat) = 1 / (fps env * 10)" by simp
  have "phys_steps_on_frame X env = frame_loop X (1 / (fps env * 10)) 10 env"
    unfolding phys_steps_on_frame_def Let_def dt using assms(5) by simp
  then show ?thesis
    using frame_loop_ready [OF assms(4,1,2,3), of "1 / (fps env * 10)" 10] by simp
qed

subsection \<open>The number of sub-steps\<close>

lemma sub_step_phys_steps:
  "sub_step X dt (env\<lparr>phys_steps := p\<rparr>)
     = map_sum id (\<lambda>e. e\<lparr>phys_steps := p\<rparr>) (sub_step X dt env)"
  by (cases "update_all dt (the (entities env))")
     (auto simp: sub_step_def split: option.splits)

lemma frame_loop_phys_steps:
  "frame_loop X dt n (env\<lparr>phys_steps := p\<rparr>)
     = map_sum id (\<lambda>e. e\<lparr>phys_steps := p\<rparr>) (frame_loop X dt n env)"
proof (induction n arbitrary: env)
  case 0
  then show ?case by simp
next
  case (Suc n)
  show ?case
  proof (cases "sub_step X dt env")
    case (Inl e)
    then show ?thesis by (simp add: sub_step_phys_steps)
  next
    case (Inr env1)
    then show ?thesis by (simp add: sub_step_phys_steps Suc.IH)
  qed
qed

lemma phys_steps_on_frame_phys_steps:
  "phys_steps_on_frame X (env\<lparr>phys_steps := p\<rparr>)
     = map_sum id (\<lambda>e. e\<lparr>phys_steps := p\<rparr>) (phys_steps_on_frame X env)"
  by (simp add: phys_steps_on_frame_def Let_def frame_loop_phys_steps)

lemma sub_step_arena_only:
  assumes "entities env = Some [ArenaEntity a]" and "space env \<noteq> None"
  shows "sub_step still_externals dt env
     = Inr (env\<lparr>calls := calls env @ [UpdateCall 0 dt, SpaceStepCall dt]\<rparr>)"
proof -
  from assms(2) obtain sp where "space env = Some sp" by auto
  then have "sub_step still_externals dt env
      = Inr (env\<lparr>entities := Some [ArenaEntity a],
                 calls := calls env @ [UpdateCall 0 dt, SpaceStepCall dt]\<rparr>)"
    using assms(1) by (simp add: sub_step_def still_externals_def)
  moreover have "env\<lparr>entities := Some [ArenaEntity a],
                 calls := calls env @ [UpdateCall 0 dt, SpaceStepCall dt]\<rparr>
      = env\<lparr>calls := calls env @ [UpdateCall 0 dt, SpaceStepCall dt]\<rparr>"
    using assms(1) by simp
  ultimately show ?thesis by simp
qed

lemma frame_loop_arena_only:
  "entities env = Some [ArenaEntity a] \<Longrightarrow> space env \<noteq> None \<Longrightarrow>
   frame_loop still_externals dt n env
     = Inr (env\<lparr>calls := calls env @ concat (replicate n [UpdateCall 0 dt, SpaceStepCall dt])\<rparr>)"
proof (induction n arbitrary: env)
  case 0
  then show ?case by simp
next
  case (Suc n)
  let ?env1 = "env\<lparr>calls := calls env @ [UpdateCall 0 dt, SpaceStepCall dt]\<rparr>"
  have s: "sub_step still_externals dt env = Inr ?env1"
    using Suc.prems by (rule sub_step_arena_only)
  have "frame_loop still_externals dt n ?env1
     = Inr (?env1\<lparr>calls := calls ?env1 @ concat (replicate n [UpdateCall 0 dt, SpaceStepCall dt])\<rparr>)"
    using Suc.prems by (intro Suc.IH) simp_all
  then show ?case by (simp add: s)
qed

text \<open>
  Claim C2.  The configured \<open>phys_steps\<close> has no effect on \<open>_phys_steps_on_frame\<close>: for
  every environment, changing the attribute changes nothing but the attribute itself in the
  outcome.  The number of sub-steps is the constant 10 of the method, each an \<open>update(dt)\<close> on
  every entity followed by one \<open>space.step(dt)\<close> with \<open>dt = 1 / (fps * 10)\<close>.  For an
  environment configured with \<open>phys_steps = 5\<close> and \<open>fps = 20\<close>, in the state that its
  \<open>reset\<close> leaves (the arena is the one entity), the frame makes ten sub-steps of \<open>1/200\<close>,
  where the claim has five of \<open>1/100\<close>.
\<close>

theorem phys_steps_on_frame_ignores_phys_steps:
"phys_steps_on_frame X (env\<lparr>phys_steps := p\<rparr>)
     = map_sum id (\<lambda>e. e\<lparr>phys_steps := p\<rparr>) (phys_steps_on_frame X env)
   \<and> phys_steps (arena_scene still_externals (BaseEnv_init (2, 2) 20 5 10 (Some 3) False 0)) = 5
   \<and> fps (arena_scene still_externals (BaseEnv_init (2, 2) 20 5 10 (Some 3) False 0)) = 20
   \<and> map_sum id calls
        (phys_steps_on_frame still_externals
           (arena_scene still_externals (BaseEnv_init (2, 2) 20 5 10 (Some 3) False 0)))
      = Inr (concat (replicate 10 [UpdateCall 0 (1 / 200), SpaceStepCall (1 / 200)]))"
proof -
  let ?E = "arena_scene still_externals (BaseEnv_init (2, 2) 20 5 10 (Some 3) False 0)"
  have f: "phys_steps ?E = 5" "fps ?E = 20" "calls ?E = []" "space ?E \<noteq> None"
    "entities ?E = Some [ArenaEntity (snd (new_scene still_externals
                                        (BaseEnv_init (2, 2) 20 5 10 (Some 3) False 0)))]"
    by (simp_all add: arena_scene_def scene_defs Let_def)
  have "phys_steps_on_frame still_externals ?E = frame_loop still_externals (1 / 200) 10 ?E"
    by (simp add: phys_steps_on_frame_def Let_def f)
  also have "\<dots> = Inr (?E\<lparr>calls := calls ?E
       @ concat (replicate 10 [UpdateCall 0 (1 / 200), SpaceStepCall (1 / 200)])\<rparr>)"
    using f(5,4) by (rule frame_loop_arena_only)
  finally have c: "map_sum id calls (phys_steps_on_frame still_externals ?E)
      = Inr (concat (replicate 10 [UpdateCall 0 (1 / 200), SpaceStepCall (1 / 200)]))"
    by (simp add: f)
  show ?thesis
    by (intro conjI phys_steps_on_frame_phys_steps f(1) f(2) c)
qed

section \<open>Properties of step\<close>

lemma set_action_ready:
  "rig (set_action r a) = rig r"
  "target_finger_angle r \<noteq> None \<Longrightarrow> target_finger_angle (set_action r a) \<noteq> None"
  by (simp_all add: set_action_def Let_def)

lemma robot_set_action_ready:
  assumes "entities env = Some es" and "scene_ok es (robot env)"
  shows "\<exists>es'. robot_set_action env flag = Inr (env\<lparr>entities := Some es'\<rparr>)
           \<and> length es' = length es \<and> scene_ok es' (robot env)"
proof -
  from assms(2) obtain i where i: "robot env = Some i" "i < length es" "is_Robot (es ! i)"
    and rdy: "list_all entity_ready es"
    by (auto simp: scene_ok_def)
  from i(3) obtain r where r: "es ! i = RobotEntity r"
    by (cases "es ! i") auto
  let ?es' = "es[i := RobotEntity (set_action r flag)]"
  have run: "robot_set_action env flag = Inr (env\<lparr>entities := Some ?es'\<rparr>)"
    by (simp add: robot_set_action_def i(1,2) assms(1) r)
  have "entity_ready (es ! i)" using rdy i(2) by (simp add: list_all_length)
  then have er: "entity_ready (RobotEntity (set_action r flag))"
    using r by (simp add: set_action_ready)
  have rdy': "list_all entity_ready ?es'"
    unfolding list_all_length
  proof (intro allI impI)
    fix j assume "j < length ?es'"
    then have j: "j < length es" by simp
    show "entity_ready (?es' ! j)"
    proof (cases "j = i")
      case True
      then show ?thesis using er i(2) by simp
    next
      case False
      then show ?thesis using rdy j by (simp add: list_all_length)
    qed
  qed
  have "is_Robot (?es' ! i)" using i(2) by simp
  then have "scene_ok ?es' (robot env)"
    using rdy' i by (auto simp: scene_ok_def)
  with run show ?thesis by (intro exI [of _ ?es']) simp
qed

lemma Viewer_render_pixels_ok:
  assumes "length (buf_data b) = buf_height b * buf_width b * 4"
  shows "\<exists>img. Viewer_render v b True = Inr (Pixels img, v\<lparr>onetime_geoms := []\<rparr>)"
  using assms by (simp add: Viewer_render_def reshape_rgba_def)

lemma BaseEnv_render_ready:
  assumes "entities env = Some es" and "scene_ok es (robot env)" and "good_buffers X"
  shows "\<exists>ob env'. BaseEnv_render X env ''rgb_array'' = Inr (ob, env')
           \<and> (\<exists>es'. entities env' = Some es' \<and> scene_ok es' (robot env'))
           \<and> space env' = space env \<and> episode_steps env' = episode_steps env
           \<and> max_episode_steps env' = max_episode_steps env \<and> fps env' = fps env"
proof (cases "viewer env")
  case None
  then have "BaseEnv_render X env ''rgb_array'' = Inr (None, env)"
    by (simp add: BaseEnv_render_def)
  with assms(1,2) show ?thesis by auto
next
  case (Some v)
  from assms(2) have "list_all entity_ready es" by (simp add: scene_ok_def)
  then obtain es1 where es1: "pre_draw_all es = Inr es1" "length es1 = length es"
    "list_all entity_ready es1" "map is_Robot es1 = map is_Robot es"
    using pre_draw_all_ready by blast
  have ok1: "scene_ok es1 (robot env)"
    using assms(2) es1(2,3,4) by (rule scene_ok_same)
  let ?b = "color_buffer X v es1"
  have "length (buf_data ?b) = buf_height ?b * buf_width ?b * 4"
    using assms(3) unfolding good_buffers_def by blast
  then obtain img where img: "Viewer_render v ?b True = Inr (Pixels img, v\<lparr>onetime_geoms := []\<rparr>)"
    using Viewer_render_pixels_ok by blast
  have "BaseEnv_render X env ''rgb_array''
      = Inr (Some (Pixels img), env\<lparr>entities := Some es1, viewer := Some (v\<lparr>onetime_geoms := []\<rparr>)\<rparr>)"
    unfolding BaseEnv_render_def by (simp add: Some assms(1) es1(1) img)
  with ok1 show ?thesis by auto
qed

lemma action_to_flags_valid:
  "0 \<le> a \<Longrightarrow> a < int (length tbl) \<Longrightarrow> action_to_flags tbl a = Inr (tbl ! nat a)"
  by (simp add: action_to_flags_def ACTION_ID_TO_FLAGS_def)

lemma step_contract:
  assumes rdy: "scene_ready env" and ext: "externals_ok X" and fps: "fps env \<noteq> 0"
    and cnt: "episode_steps env = Some n" and a: "0 \<le> a" "a < int (length tbl)"
  shows "\<exists>env1 env2.
      robot_set_action env (action_flag_of (tbl ! nat a)) = Inr env1
    \<and> phys_steps_on_frame X env1 = Inr env2
    \<and> (let env3 = env2\<lparr>episode_steps := Some (n + 1)\<rparr>;
            dn = (case max_episode_steps env of None \<Rightarrow> False | Some m \<Rightarrow> n + 1 \<ge> m);
            s = score_on_end_of_traj sc env3
        in if dn \<and> \<not> (0 \<le> s \<and> s \<le> 1) then step tbl X sc env a = Inl AssertionError
           else \<exists>ob env'. step tbl X sc env a
                    = Inr (\<lparr> obs = ob, reward = 0, is_done = dn,
                             info = [''eval_score'' \<mapsto> (if dn then s else 0)] \<rparr>, env')
                  \<and> scene_ready env' \<and> episode_steps env' = Some (n + 1)
                  \<and> max_episode_steps env' = max_episode_steps env \<and> fps env' = fps env)"
proof -
  from rdy obtain es where es: "entities env = Some es" "scene_ok es (robot env)"
    and sp: "space env \<noteq> None"
    by (auto simp: scene_ready_iff)
  from ext have ks: "keeps_scene (pm_step X)" and gb: "good_buffers X"
    by (simp_all add: externals_ok_def)
  obtain ud lr grip where t: "tbl ! nat a = (ud, lr, grip)"
    by (cases "tbl ! nat a") auto
  have atf: "action_to_flags tbl a = Inr (ud, lr, grip)"
    using action_to_flags_valid [OF a] t by simp
  let ?flag = "((NONE OR ud) OR lr) OR grip"
  \<comment> \<open>the robot takes the action\<close>
  from robot_set_action_ready [OF es, of ?flag]
  obtain es1 where sa: "robot_set_action env ?flag = Inr (env\<lparr>entities := Some es1\<rparr>)"
    and ok1: "scene_ok es1 (robot env)"
    by blast
  define env1 where "env1 = env\<lparr>entities := Some es1\<rparr>"
  have env1: "entities env1 = Some es1" "robot env1 = robot env" "space env1 = space env"
    "fps env1 = fps env" "episode_steps env1 = Some n"
    "max_episode_steps env1 = max_episode_steps env"
    by (simp_all add: env1_def cnt)
  \<comment> \<open>the physics of the frame\<close>
  have "\<exists>es'. phys_steps_on_frame X env1
             = Inr (env1\<lparr>entities := Some es',
                        calls := calls env1
                          @ concat (replicate 10 (sub_step_calls (length es1) (1 / (fps env1 * 10))))\<rparr>)
           \<and> length es' = length es1 \<and> scene_ok es' (robot env1)"
    using env1 ok1 sp ks fps by (intro phys_steps_on_frame_ready) simp_all
  then obtain es2 cs where ph: "phys_steps_on_frame X env1
             = Inr (env1\<lparr>entities := Some es2, calls := cs\<rparr>)"
    and ok2: "scene_ok es2 (robot env1)"
    by blast
  define env2 where "env2 = env1\<lparr>entities := Some es2, calls := cs\<rparr>"
  have env2: "entities env2 = Some es2" "robot env2 = robot env" "space env2 = space env"
    "fps env2 = fps env" "episode_steps env2 = Some n"
    "max_episode_steps env2 = max_episode_steps env"
    by (simp_all add: env2_def env1)
  define env3 where "env3 = env2\<lparr>episode_steps := Some (n + 1)\<rparr>"
  have env3: "entities env3 = Some es2" "robot env3 = robot env" "space env3 = space env"
    "fps env3 = fps env" "episode_steps env3 = Some (n + 1)"
    "max_episode_steps env3 = max_episode_steps env"
    by (simp_all add: env3_def env2)
  \<comment> \<open>the frame is rendered\<close>
  have ok3: "scene_ok es2 (robot env3)" using ok2 env1(2) env3(2) by simp
  from BaseEnv_render_ready [OF env3(1) ok3 gb]
  obtain ob env' where rn: "BaseEnv_render X env3 ''rgb_array'' = Inr (ob, env')"
    and r1: "\<exists>es'. entities env' = Some es' \<and> scene_ok es' (robot env')"
    and r2: "space env' = space env3" "episode_steps env' = episode_steps env3"
      "max_episode_steps env' = max_episode_steps env3" "fps env' = fps env3"
    by blast
  have rdy': "scene_ready env'"
    using r1 r2(1) env3(3) sp by (simp add: scene_ready_iff)
  define dn where "dn = (case max_episode_steps env of None \<Rightarrow> False | Some m \<Rightarrow> n + 1 \<ge> m)"
  define s where "s = score_on_end_of_traj sc env3"
  have unfolded: "step tbl X sc env a =
      bind_res (if dn then (if 0 \<le> s \<and> s \<le> 1 then Inr s else Inl AssertionError) else Inr 0)
        (\<lambda>eval_score. Inr (\<lparr> obs = ob, reward = 0, is_done = dn,
                                info = [''eval_score'' \<mapsto> eval_score] \<rparr>, env'))"
    unfolding step_def atf bind_res.simps prod.case Let_def sa
    unfolding env1_def [symmetric] ph bind_res.simps
    unfolding env2_def [symmetric] env2(5) option.case env3_def [symmetric] env3(6)
    unfolding s_def [symmetric] rn
    by (simp add: dn_def split: option.split)
  have final: "if dn \<and> \<not> (0 \<le> s \<and> s \<le> 1) then step tbl X sc env a = Inl AssertionError
           else \<exists>ob env'. step tbl X sc env a
                    = Inr (\<lparr> obs = ob, reward = 0, is_done = dn,
                             info = [''eval_score'' \<mapsto> (if dn then s else 0)] \<rparr>, env')
                  \<and> scene_ready env' \<and> episode_steps env' = Some (n + 1)
                  \<and> max_episode_steps env' = max_episode_steps env \<and> fps env' = fps env"
  proof (cases "dn \<and> \<not> (0 \<le> s \<and> s \<le> 1)")
    case True
    then show ?thesis unfolding unfolded by auto
  next
    case False
    then have "step tbl X sc env a
        = Inr (\<lparr> obs = ob, reward = 0, is_done = dn,
                 info = [''eval_score'' \<mapsto> (if dn then s else 0)] \<rparr>, env')"
      unfolding unfolded by auto
    moreover have "episode_steps env' = Some (n + 1)" using r2(2) env3(5) by simp
    moreover have "max_episode_steps env' = max_episode_steps env" using r2(3) env3(6) by simp
    moreover have "fps env' = fps env" using r2(4) env3(4) by simp
    ultimately show ?thesis using False rdy' by auto
  qed
  have c1: "robot_set_action env (action_flag_of (tbl ! nat a)) = Inr env1"
    using sa by (simp add: t env1_def)
  have c2: "phys_steps_on_frame X env1 = Inr env2"
    using ph by (simp add: env2_def)
  show ?thesis
  proof (rule exI [of _ env1], rule exI [of _ env2], intro conjI)
    show "robot_set_action env (action_flag_of (tbl ! nat a)) = Inr env1" by (rule c1)
    show "phys_steps_on_frame X env1 = Inr env2" by (rule c2)
    show "let env3 = env2\<lparr>episode_steps := Some (n + 1)\<rparr>;
            dn = (case max_episode_steps env of None \<Rightarrow> False | Some m \<Rightarrow> n + 1 \<ge> m);
            s = score_on_end_of_traj sc env3
        in if dn \<and> \<not> (0 \<le> s \<and> s \<le> 1) then step tbl X sc env a = Inl AssertionError
           else \<exists>ob env'. step tbl X sc env a
                    = Inr (\<lparr> obs = ob, reward = 0, is_done = dn,
                             info = [''eval_score'' \<mapsto> (if dn then s else 0)] \<rparr>, env')
                  \<and> scene_ready env' \<and> episode_steps env' = Some (n + 1)
                  \<and> max_episode_steps env' = max_episode_steps env \<and> fps env' = fps env"
      unfolding Let_def env3_def [symmetric] dn_def [symmetric] s_def [symmetric]
      by (rule final)
  qed
qed

lemma step_before_end:
  assumes "scene_ready env" and "externals_ok X" and "fps env \<noteq> 0"
    and "episode_steps env = Some n" and "max_episode_steps env = Some N" and "n + 1 < N"
    and "0 \<le> a" and "a < int (length tbl)"
  shows "\<exists>ob env'. step tbl X sc env a
             = Inr (\<lparr> obs = ob, reward = 0, is_done = False, info = [''eval_score'' \<mapsto> 0] \<rparr>, env')
           \<and> scene_ready env' \<and> episode_steps env' = Some (n + 1)
           \<and> max_episode_steps env' = Some N \<and> fps env' = fps env"
  using step_contract [OF assms(1,2,3,4,7,8), of sc] assms(5,6)
  by (auto simp: Let_def)

lemma run_steps_before_end:
  assumes ext: "externals_ok X"
  shows "scene_ready env \<Longrightarrow> fps env \<noteq> 0 \<Longrightarrow> episode_steps env = Some n \<Longrightarrow>
         max_episode_steps env = Some N \<Longrightarrow> n + int (length acts) < N \<Longrightarrow>
         \<forall>a \<in> set acts. 0 \<le> a \<and> a < int (length tbl) \<Longrightarrow>
         \<exists>rs env'. run_steps tbl X sc env acts = Inr (rs, env')
           \<and> length rs = length acts
           \<and> (\<forall>r \<in> set rs. reward r = 0 \<and> \<not> is_done r \<and> info r = [''eval_score'' \<mapsto> 0])
           \<and> scene_ready env' \<and> fps env' = fps env
           \<and> episode_steps env' = Some (n + int (length acts))
           \<and> max_episode_steps env' = Some N"
proof (induction acts arbitrary: env n)
  case Nil
  then show ?case by simp
next
  case (Cons a acts)
  have a: "0 \<le> a" "a < int (length tbl)" using Cons.prems(6) by simp_all
  have lt: "n + 1 < N" using Cons.prems(5) by simp
  from step_before_end [OF Cons.prems(1) ext Cons.prems(2,3,4) lt a, of sc]
  obtain ob env1 where
    s: "step tbl X sc env a
          = Inr (\<lparr> obs = ob, reward = 0, is_done = False, info = [''eval_score'' \<mapsto> 0] \<rparr>, env1)"
    and e1: "scene_ready env1" "episode_steps env1 = Some (n + 1)"
      "max_episode_steps env1 = Some N" "fps env1 = fps env"
    by blast
  have f1: "fps env1 \<noteq> 0" using e1(4) Cons.prems(2) by simp
  have lt1: "(n + 1) + int (length acts) < N" using Cons.prems(5) by simp
  have v1: "\<forall>a \<in> set acts. 0 \<le> a \<and> a < int (length tbl)" using Cons.prems(6) by simp
  from Cons.IH [OF e1(1) f1 e1(2,3) lt1 v1]
  obtain rs env' where
    r: "run_steps tbl X sc env1 acts = Inr (rs, env')"
    and l: "length rs = length acts"
    and q: "\<forall>r \<in> set rs. reward r = 0 \<and> \<not> is_done r \<and> info r = [''eval_score'' \<mapsto> 0]"
    and e': "scene_ready env'" "fps env' = fps env1"
      "episode_steps env' = Some ((n + 1) + int (length acts))" "max_episode_steps env' = Some N"
    by blast
  let ?r0 = "\<lparr> obs = ob, reward = 0, is_done = False, info = [''eval_score'' \<mapsto> 0] \<rparr>"
  have "run_steps tbl X sc env (a # acts) = Inr (?r0 # rs, env')"
    by (simp add: s r)
  moreover have "length (?r0 # rs) = length (a # acts)" using l by simp
  moreover have "\<forall>r \<in> set (?r0 # rs). reward r = 0 \<and> \<not> is_done r \<and> info r = [''eval_score'' \<mapsto> 0]"
    using q by simp
  moreover have "fps env' = fps env" using e'(2) e1(4) by simp
  moreover have "episode_steps env' = Some (n + int (length (a # acts)))"
    using e'(3) by (simp add: algebra_simps)
  ultimately show ?case using e'(1,4) by blast
qed

text \<open>
  On a scene that has been set up, \<open>step\<close> keeps its contract.  Take an environment with step
  counter 0, every entity set up, a space and the robot in the entity list, with
  \<open>max_episode_steps = N\<close>, \<open>N \<ge> 1\<close>, and a non-zero frame rate; let pymunk and pyglet behave
  (\<open>externals_ok\<close>).  For any \<open>N - 1\<close> valid actions followed by one more: each of the first
  \<open>N - 1\<close> calls returns reward 0, \<open>done = False\<close> and \<open>info = {eval_score: 0}\<close>; the
  \<open>N\<close>-th call computes the scenario's score \<open>s\<close> on the state after its physics and, if
  \<open>0 \<le> s \<le> 1\<close>, returns reward 0, \<open>done = True\<close> and \<open>info = {eval_score: s}\<close>, and
  otherwise raises \<open>AssertionError\<close>.
\<close>

lemma step_contract_on_ready_scene:
  assumes "scene_ready env" and "externals_ok X" and "fps env \<noteq> 0"
    and "episode_steps env = Some 0" and "max_episode_steps env = Some N" and "1 \<le> N"
    and "int (length acts) = N - 1"
    and "\<forall>a \<in> set (acts @ [a_last]). 0 \<le> a \<and> a < int (length tbl)"
  shows "\<exists>rs env' env1 env2.
           run_steps tbl X sc env acts = Inr (rs, env')
         \<and> length rs = length acts
         \<and> (\<forall>r \<in> set rs. reward r = 0 \<and> \<not> is_done r \<and> info r = [''eval_score'' \<mapsto> 0])
         \<and> robot_set_action env' (action_flag_of (tbl ! nat a_last)) = Inr env1
         \<and> phys_steps_on_frame X env1 = Inr env2
         \<and> (let s = score_on_end_of_traj sc (env2\<lparr>episode_steps := Some N\<rparr>)
             in if 0 \<le> s \<and> s \<le> 1
                then \<exists>ob env''. step tbl X sc env' a_last
                        = Inr (\<lparr> obs = ob, reward = 0, is_done = True,
                                 info = [''eval_score'' \<mapsto> s] \<rparr>, env'')
                else step tbl X sc env' a_last = Inl AssertionError)"
proof -
  have lt: "0 + int (length acts) < N" using assms(7) by simp
  have v: "\<forall>a \<in> set acts. 0 \<le> a \<and> a < int (length tbl)" using assms(8) by simp
  have al: "0 \<le> a_last" "a_last < int (length tbl)" using assms(8) by simp_all
  from run_steps_before_end [OF assms(2,1,3,4,5) lt v, of sc]
  obtain rs env' where
    r: "run_steps tbl X sc env acts = Inr (rs, env')"
    and l: "length rs = length acts"
    and q: "\<forall>r \<in> set rs. reward r = 0 \<and> \<not> is_done r \<and> info r = [''eval_score'' \<mapsto> 0]"
    and e': "scene_ready env'" "fps env' = fps env"
      "episode_steps env' = Some (0 + int (length acts))" "max_episode_steps env' = Some N"
    by blast
  have f': "fps env' \<noteq> 0" using e'(2) assms(3) by simp
  have n1: "0 + int (length acts) + 1 = N" using assms(7) by simp
  from step_contract [OF e'(1) assms(2) f' e'(3) al, of sc]
  obtain env1 env2 where
    c1: "robot_set_action env' (action_flag_of (tbl ! nat a_last)) = Inr env1"
    and c2: "phys_steps_on_frame X env1 = Inr env2"
    and c3: "let env3 = env2\<lparr>episode_steps := Some (0 + int (length acts) + 1)\<rparr>;
            dn = (case max_episode_steps env' of None \<Rightarrow> False
                  | Some m \<Rightarrow> 0 + int (length acts) + 1 \<ge> m);
            s = score_on_end_of_traj sc env3
        in if dn \<and> \<not> (0 \<le> s \<and> s \<le> 1) then step tbl X sc env' a_last = Inl AssertionError
           else \<exists>ob env''. step tbl X sc env' a_last
                    = Inr (\<lparr> obs = ob, reward = 0, is_done = dn,
                             info = [''eval_score'' \<mapsto> (if dn then s else 0)] \<rparr>, env'')
                  \<and> scene_ready env'' \<and> episode_steps env'' = Some (0 + int (length acts) + 1)
                  \<and> max_episode_steps env'' = max_episode_steps env' \<and> fps env'' = fps env'"
    by blast
  have c4: "let s = score_on_end_of_traj sc (env2\<lparr>episode_steps := Some N\<rparr>)
             in if 0 \<le> s \<and> s \<le> 1
                then \<exists>ob env''. step tbl X sc env' a_last
                        = Inr (\<lparr> obs = ob, reward = 0, is_done = True,
                                 info = [''eval_score'' \<mapsto> s] \<rparr>, env'')
                else step tbl X sc env' a_last = Inl AssertionError"
    using c3 unfolding n1 e'(4) by (auto simp: Let_def)
  from r l q c1 c2 c4 show ?thesis by blast
qed

text \<open>
  Claim C1.  Starting from \<open>reset()\<close>, the contract of \<open>step\<close> is not met.  On the classes of
  \<open>entities.py\<close>, \<open>reset\<close> raises \<open>TypeError\<close> in the arena's \<open>setup\<close> (C3), which is called
  in the state \<open>arena_scene\<close>: the step counter is 0, the arena is the only entity and there
  is no robot.  In that state every call of \<open>step\<close> with a valid action raises
  \<open>AttributeError\<close> at \<open>self._robot.set_action\<close>, instead of returning an observation, the
  reward 0, \<open>done\<close> and an \<open>info\<close> with \<open>eval_score\<close>.
\<close>

theorem step_after_reset_raises:
"reset entity_setup X sc env0 = Inl TypeError
   \<and> entity_setup (ArenaEntity (snd (new_scene X env0)))
        [viewer_obj (arena_scene X env0), space_obj (arena_scene X env0),
         phys_vars_obj (arena_scene X env0)] = Inl TypeError
   \<and> episode_steps (arena_scene X env0) = Some 0
   \<and> robot (arena_scene X env0) = None
   \<and> step tbl X sc (arena_scene X env0) a
        = (if 0 \<le> a \<and> a < int (length tbl) then Inl AttributeError else Inl KeyError)"
proof (intro conjI)
  show "reset entity_setup X sc env0 = Inl TypeError" by (rule reset_TypeError)
  show "entity_setup (ArenaEntity (snd (new_scene X env0)))
        [viewer_obj (arena_scene X env0), space_obj (arena_scene X env0),
         phys_vars_obj (arena_scene X env0)] = Inl TypeError"
    by (rule entity_setup_three)
  show "episode_steps (arena_scene X env0) = Some 0" by (rule arena_scene_fields)
  show "robot (arena_scene X env0) = None" by (rule arena_scene_fields)
  show "step tbl X sc (arena_scene X env0) a
        = (if 0 \<le> a \<and> a < int (length tbl) then Inl AttributeError else Inl KeyError)"
  proof (cases "0 \<le> a \<and> a < int (length tbl)")
    case True
    then have "action_to_flags tbl a = Inr (tbl ! nat a)"
      by (simp add: action_to_flags_valid)
    moreover have "robot_set_action (arena_scene X env0) f = Inl AttributeError" for f
      by (simp add: robot_set_action_def arena_scene_fields)
    ultimately show ?thesis
      using True by (simp add: step_def split_beta Let_def)
  next
    case False
    then have "action_to_flags tbl a = Inl KeyError"
      by (auto simp: action_to_flags_def ACTION_ID_TO_FLAGS_def)
    then show ?thesis
      using False by (simp add: step_def)
  qed
qed

section \<open>Properties of reset\<close>

text \<open>
  Claim C5.  \<open>reset\<close> does not fail with an assertion.  On the classes of \<open>entities.py\<close> it
  raises \<open>TypeError\<close> in the arena's \<open>setup\<close> (C3) for every scenario, before \<open>on_reset\<close> is
  called and before either assertion is reached: a reset whose scenario adds no robot, and one
  whose scenario adds two, both abort with \<open>TypeError\<close>, not with \<open>AssertionError\<close>.
\<close>

theorem reset_raises_before_assertions:
"reset entity_setup X sc env0 = Inl TypeError
   \<and> reset entity_setup X sc env0 \<noteq> Inl AssertionError
   \<and> reset entity_setup still_externals (robots_scenario entity_setup [] (1 / 2))
        (BaseEnv_init (2, 2) 20 10 10 (Some 3) False 0) = Inl TypeError
   \<and> reset entity_setup still_externals
        (robots_scenario entity_setup [make_robot (0, 0) 0, make_robot (1 / 2, 1 / 2) 0] (1 / 2))
        (BaseEnv_init (2, 2) 20 10 10 (Some 3) False 0) = Inl TypeError"
  by (simp add: reset_TypeError)

end
